theory Spec2Isabelle
  imports Main
begin

section \<open>JavaScript values used by the portal\<close>

text \<open>
  A JavaScript string is a sequence of UTF-16 code units; it is modelled as the list of
  its code units.  \<open>lit\<close> writes an ASCII literal; code units beyond ASCII are given by
  number (186 is the masculine ordinal sign of \<open>9o Andar\<close>, 205 is I-acute, 201 is
  E-acute, and so on).
\<close>

type_synonym jsstring = "nat list"

definition lit :: "string \<Rightarrow> jsstring" where
  "lit s = map of_char s"

text \<open>\<open>a || b\<close> where \<open>a\<close> is a string, \<open>null\<close> or \<open>undefined\<close>: the empty string is falsy.\<close>

definition js_or :: "jsstring option \<Rightarrow> jsstring \<Rightarrow> jsstring" where
  "js_or a b = (case a of None \<Rightarrow> b | Some s \<Rightarrow> if s = [] then b else s)"

text \<open>\<open>!!b\<close> on a nullable boolean column.\<close>

definition truthy :: "bool option \<Rightarrow> bool" where
  "truthy b = (b = Some True)"

text \<open>\<open>xs[i]\<close> on an array: \<open>undefined\<close> out of range.\<close>

definition at_index :: "'a list \<Rightarrow> nat \<Rightarrow> 'a option" where
  "at_index xs i = (if i < length xs then Some (xs ! i) else None)"

definition starts_with :: "jsstring \<Rightarrow> jsstring \<Rightarrow> bool" where
  "starts_with s sep = (take (length sep) s = sep)"

text \<open>\<open>s.includes(sub)\<close> (the name \<open>includes\<close> is an Isar keyword).\<close>

fun includes_str :: "jsstring \<Rightarrow> jsstring \<Rightarrow> bool" where
  "includes_str [] sub = (sub = [])"
| "includes_str (c # cs) sub = (starts_with (c # cs) sub \<or> includes_str cs sub)"

text \<open>
  \<open>s.split(sep)\<close>: the string is scanned from the left, every occurrence of the
  separator closes the current segment and the scan resumes behind it.  With the empty
  separator the string is split into its code units.
\<close>

fun split_from :: "jsstring \<Rightarrow> jsstring \<Rightarrow> jsstring \<Rightarrow> jsstring list" where
  "split_from sep cur [] = [rev cur]"
| "split_from sep cur (c # cs) =
     (if sep \<noteq> [] \<and> starts_with (c # cs) sep
      then rev cur # split_from sep [] (drop (length sep - 1) cs)
      else split_from sep (c # cur) cs)"

definition split_str :: "jsstring \<Rightarrow> jsstring \<Rightarrow> jsstring list" where
  "split_str s sep = (if sep = [] then map (\<lambda>c. [c]) s else split_from sep [] s)"

text \<open>\<open>s.trim()\<close> removes the ECMAScript white space and line terminators at both ends.\<close>

definition is_white_space :: "nat \<Rightarrow> bool" where
  "is_white_space c =
     (c \<in> set [9, 10, 11, 12, 13, 32, 160, 5760, 8232, 8233, 8239, 8287, 12288, 65279]
      \<or> (8192 \<le> c \<and> c \<le> 8202))"

definition trim :: "jsstring \<Rightarrow> jsstring" where
  "trim s = rev (dropWhile is_white_space (rev (dropWhile is_white_space s)))"

text \<open>\<open>s.padStart(n, c)\<close> with a filler of one code unit.\<close>

definition padStart :: "jsstring \<Rightarrow> nat \<Rightarrow> nat \<Rightarrow> jsstring" where
  "padStart s n c = replicate (n - length s) c @ s"

text \<open>\<open>xs.sort(cmp)\<close>: a stable sort directed by the comparator.\<close>

fun insert_by :: "('a \<Rightarrow> 'a \<Rightarrow> int) \<Rightarrow> 'a \<Rightarrow> 'a list \<Rightarrow> 'a list" where
  "insert_by cmp x [] = [x]"
| "insert_by cmp x (y # ys) = (if cmp x y < 0 then x # y # ys else y # insert_by cmp x ys)"

definition sort_by :: "('a \<Rightarrow> 'a \<Rightarrow> int) \<Rightarrow> 'a list \<Rightarrow> 'a list" where
  "sort_by cmp xs = foldl (\<lambda>acc x. insert_by cmp x acc) [] xs"

subsection \<open>Numbers and dates\<close>

text \<open>
  The date getters return a Number: an integer, or \<open>NaN\<close> on an invalid Date.  A Date is
  modelled by what its local-time getters return: the year, the month counted from 0
  and the day of the month.
\<close>

datatype number = NaN | Number int

datatype Date = Invalid_Date | Local_Date int nat nat

fun getFullYear :: "Date \<Rightarrow> number" where
  "getFullYear Invalid_Date = NaN"
| "getFullYear (Local_Date y m d) = Number y"

fun getMonth :: "Date \<Rightarrow> number" where
  "getMonth Invalid_Date = NaN"
| "getMonth (Local_Date y m d) = Number (int m)"

fun getDate :: "Date \<Rightarrow> number" where
  "getDate Invalid_Date = NaN"
| "getDate (Local_Date y m d) = Number (int d)"

fun plus_one :: "number \<Rightarrow> number" where
  "plus_one NaN = NaN"
| "plus_one (Number i) = Number (i + 1)"

fun digits :: "nat \<Rightarrow> jsstring" where
  "digits n = (if n < 10 then [48 + n] else digits (n div 10) @ [48 + n mod 10])"

declare digits.simps [simp del]

text \<open>\<open>String(x)\<close> and template interpolation of a Number.\<close>

fun String :: "number \<Rightarrow> jsstring" where
  "String NaN = lit ''NaN''"
| "String (Number i) = (if i < 0 then lit ''-'' @ digits (nat (- i)) else digits (nat i))"

text \<open>\<open>formatDateKey\<close> of the daily map.\<close>

definition formatDateKey :: "Date \<Rightarrow> jsstring" where
  "formatDateKey date =
     (let year = getFullYear date;
          month = padStart (String (plus_one (getMonth date))) 2 48;
          day = padStart (String (getDate date)) 2 48
      in String year @ lit ''-'' @ month @ lit ''-'' @ day)"

text \<open>
  \<open>getLocalDateKey\<close> of the dashboard takes no argument and reads the clock with
  \<open>new Date()\<close>; the clock reading is the argument of the model.
\<close>

definition getLocalDateKey :: "Date \<Rightarrow> jsstring" where
  "getLocalDateKey now =
     (let d = now;
          year = getFullYear d;
          month = padStart (String (plus_one (getMonth d))) 2 48;
          day = padStart (String (getDate d)) 2 48
      in String year @ lit ''-'' @ month @ lit ''-'' @ day)"

section \<open>The sector context (AuthContext)\<close>

definition FLOOR_OPTIONS :: "jsstring list" where
  "FLOOR_OPTIONS =
     [lit ''10'' @ [186] @ lit '' Andar ( CENTRO CIR'' @ [218] @ lit ''RGICO )'',
      lit ''9'' @ [186] @ lit '' Andar ( OFTALMOLOGIA )'',
      lit ''8'' @ [186] @ lit '' Andar ( CL'' @ [205] @ lit ''NICA M'' @ [201]
        @ lit ''DICA / CARDIOLOGIA )'',
      lit ''7'' @ [186] @ lit '' Andar ( PEDIATRIA / OTORRINO )'',
      lit ''6'' @ [186] @ lit '' Andar ( GINECOLOGIA / OBSTETR'' @ [205] @ lit ''CIA )'',
      lit ''5'' @ [186] @ lit '' Andar ( ORTOPEDIA / VASCULAR )'',
      lit ''4'' @ [186] @ lit '' Andar ( ESP CIR'' @ [218] @ lit ''RGICAS / DERMATOLOGIA )'',
      lit ''3'' @ [186] @ lit '' Andar ( SARA )'',
      lit ''2'' @ [186] @ lit '' Andar ( PSIQUISTRIA )'',
      lit ''CDU - CENTRO DE DIAGN'' @ [211] @ lit ''STICO UNIMED'',
      lit ''T'' @ [233] @ lit ''rreo ( RECEP'' @ [199, 195] @ lit ''O / TRIAGEM )'']"

text \<open>The browser's \<open>localStorage\<close>: \<open>getItem\<close> returns \<open>null\<close> on a key never stored.\<close>

type_synonym localStorage = "jsstring \<rightharpoonup> jsstring"

definition getItem :: "localStorage \<Rightarrow> jsstring \<Rightarrow> jsstring option" where
  "getItem ls k = ls k"

definition setItem :: "localStorage \<Rightarrow> jsstring \<Rightarrow> jsstring \<Rightarrow> localStorage" where
  "setItem ls k v = ls(k \<mapsto> v)"

record User =
  usr_id :: jsstring
  usr_name :: jsstring
  usr_role :: jsstring
  usr_isAdmin :: bool

record AuthContext =
  user :: "User option"
  selectedFloor :: jsstring

text \<open>
  Mounting the provider (first load and every reload) initialises the selected floor
  from the storage; the profile is loaded later from the session.
\<close>

definition AuthProvider :: "localStorage \<Rightarrow> AuthContext" where
  "AuthProvider ls =
     \<lparr>user = None,
      selectedFloor = js_or (getItem ls (lit ''mediportal_selected_floor''))
                        (lit ''9'' @ [186] @ lit '' Andar ( OFTALMOLOGIA )'')\<rparr>"

definition setSelectedFloor ::
  "jsstring \<Rightarrow> AuthContext \<times> localStorage \<Rightarrow> AuthContext \<times> localStorage" where
  "setSelectedFloor floor = (\<lambda>(ctx, ls).
     (ctx\<lparr>selectedFloor := floor\<rparr>, setItem ls (lit ''mediportal_selected_floor'') floor))"

section \<open>The remote data store\<close>

text \<open>
  Modelled from the spec: the store is an external service whose schema and query
  engine are not among the sources.  Its three tables \<open>profiles\<close>, \<open>rooms\<close> and
  \<open>room_allocations\<close> have the columns the specification lists for them, which are the
  columns the pages read and write; a request is delivered or fails in the transport.
  Nullable columns are options.  Room and allocation identifiers are generated by the
  store (a counter here: an identifier is never handed out twice); profile identifiers
  are chosen by the client.
\<close>

record profile_row =
  pr_id :: jsstring
  pr_name :: "jsstring option"
  pr_email :: "jsstring option"
  pr_role :: "jsstring option"
  pr_specialty :: "jsstring option"
  pr_phone :: "jsstring option"
  pr_avatar :: "jsstring option"
  pr_status :: "jsstring option"
  pr_gender :: "jsstring option"
  pr_is_admin :: "bool option"

record room_row =
  rm_id :: nat
  rm_name :: jsstring
  rm_extension :: "jsstring option"
  rm_sector :: jsstring
  rm_order :: int

datatype shift = morning | afternoon

text \<open>The columns a client sends, and the stored row with its generated identifier.\<close>

record alloc_values =
  al_room_id :: nat
  al_doctor_id :: jsstring
  al_date :: jsstring
  al_shift :: shift
  al_created_by :: "jsstring option"

record alloc_row = alloc_values +
  al_id :: nat

datatype verb = Select | Insert | Update | Delete | Upsert

datatype table = Profiles | Rooms | Room_allocations

record remote =
  db_profiles :: "profile_row list"
  db_rooms :: "room_row list"
  db_room_allocations :: "alloc_row list"
  next_room_id :: nat
  next_alloc_id :: nat
  requests :: "(verb \<times> table) list"

text \<open>What the transport does with one request, and the \<open>{ data, error }\<close> answer.\<close>

datatype transport = Delivered | Failed jsstring

datatype 'a reply = Reply "'a option" "jsstring option"

definition issue :: "verb \<Rightarrow> table \<Rightarrow> remote \<Rightarrow> remote" where
  "issue v t db = db\<lparr>requests := requests db @ [(v, t)]\<rparr>"

definition answer :: "transport \<Rightarrow> 'a \<Rightarrow> 'a reply" where
  "answer t rows = (case t of Delivered \<Rightarrow> Reply (Some rows) None
                            | Failed e \<Rightarrow> Reply None (Some e))"

subsection \<open>profiles\<close>

definition select_profiles ::
  "transport \<Rightarrow> (profile_row \<Rightarrow> bool) \<Rightarrow> remote \<Rightarrow> profile_row list reply \<times> remote" where
  "select_profiles t P db = (answer t (filter P (db_profiles db)), issue Select Profiles db)"

definition update_profiles ::
  "transport \<Rightarrow> (profile_row \<Rightarrow> bool) \<Rightarrow> (profile_row \<Rightarrow> profile_row) \<Rightarrow> remote
     \<Rightarrow> jsstring option \<times> remote" where
  "update_profiles t P f db =
     (case t of
        Failed e \<Rightarrow> (Some e, issue Update Profiles db)
      | Delivered \<Rightarrow>
          (None, issue Update Profiles
                   (db\<lparr>db_profiles := map (\<lambda>r. if P r then f r else r) (db_profiles db)\<rparr>)))"

definition delete_profiles ::
  "transport \<Rightarrow> (profile_row \<Rightarrow> bool) \<Rightarrow> remote \<Rightarrow> jsstring option \<times> remote" where
  "delete_profiles t P db =
     (case t of
        Failed e \<Rightarrow> (Some e, issue Delete Profiles db)
      | Delivered \<Rightarrow>
          (None, issue Delete Profiles
                   (db\<lparr>db_profiles := filter (\<lambda>r. \<not> P r) (db_profiles db)\<rparr>)))"

text \<open>The primary key rejects a second row with the same identifier.\<close>

definition insert_profile ::
  "transport \<Rightarrow> profile_row \<Rightarrow> remote \<Rightarrow> jsstring option \<times> remote" where
  "insert_profile t row db =
     (case t of
        Failed e \<Rightarrow> (Some e, issue Insert Profiles db)
      | Delivered \<Rightarrow>
          if pr_id row \<in> set (map pr_id (db_profiles db))
          then (Some (lit ''duplicate key value violates unique constraint''),
                issue Insert Profiles db)
          else (None, issue Insert Profiles (db\<lparr>db_profiles := db_profiles db @ [row]\<rparr>)))"

subsection \<open>rooms\<close>

text \<open>\<open>.eq('sector', s).order('order', { ascending: true })\<close>.\<close>

definition select_rooms ::
  "transport \<Rightarrow> jsstring \<Rightarrow> remote \<Rightarrow> room_row list reply \<times> remote" where
  "select_rooms t s db =
     (answer t (sort_key rm_order (filter (\<lambda>r. rm_sector r = s) (db_rooms db))),
      issue Select Rooms db)"

definition insert_room ::
  "transport \<Rightarrow> jsstring \<Rightarrow> jsstring \<Rightarrow> jsstring \<Rightarrow> int \<Rightarrow> remote \<Rightarrow> jsstring option \<times> remote" where
  "insert_room t name extension sector order' db =
     (case t of
        Failed e \<Rightarrow> (Some e, issue Insert Rooms db)
      | Delivered \<Rightarrow>
          (None, issue Insert Rooms
             (db\<lparr>db_rooms := db_rooms db @
                    [\<lparr>rm_id = next_room_id db, rm_name = name, rm_extension = Some extension,
                      rm_sector = sector, rm_order = order'\<rparr>],
                 next_room_id := Suc (next_room_id db)\<rparr>)))"

text \<open>\<open>.update({ name, extension }).eq('id', i)\<close>.\<close>

definition update_room ::
  "transport \<Rightarrow> nat \<Rightarrow> jsstring \<Rightarrow> jsstring \<Rightarrow> remote \<Rightarrow> jsstring option \<times> remote" where
  "update_room t i name extension db =
     (case t of
        Failed e \<Rightarrow> (Some e, issue Update Rooms db)
      | Delivered \<Rightarrow>
          (None, issue Update Rooms
             (db\<lparr>db_rooms :=
                   map (\<lambda>r. if rm_id r = i
                             then r\<lparr>rm_name := name, rm_extension := Some extension\<rparr> else r)
                       (db_rooms db)\<rparr>)))"

definition delete_room :: "transport \<Rightarrow> nat \<Rightarrow> remote \<Rightarrow> jsstring option \<times> remote" where
  "delete_room t i db =
     (case t of
        Failed e \<Rightarrow> (Some e, issue Delete Rooms db)
      | Delivered \<Rightarrow>
          (None, issue Delete Rooms
             (db\<lparr>db_rooms := filter (\<lambda>r. rm_id r \<noteq> i) (db_rooms db)\<rparr>)))"

subsection \<open>room\_allocations\<close>

text \<open>\<open>.eq('date', d).in('room_id', ids)\<close>.\<close>

definition select_allocations ::
  "transport \<Rightarrow> jsstring \<Rightarrow> nat list \<Rightarrow> remote \<Rightarrow> alloc_row list reply \<times> remote" where
  "select_allocations t d ids db =
     (answer t (filter (\<lambda>a. al_date a = d \<and> al_room_id a \<in> set ids) (db_room_allocations db)),
      issue Select Room_allocations db)"

text \<open>
  Modelled from the spec: \<open>.upsert(row, { onConflict: cols })\<close> of the store.  A stored
  row that agrees with the new one on every conflict column takes the values of the new
  row and keeps its identifier (the second write overwrites and is no error); without
  such a row the new one is inserted.
\<close>

datatype alloc_column = col_room_id | col_doctor_id | col_date | col_shift | col_created_by

fun same_on :: "alloc_values \<Rightarrow> alloc_row \<Rightarrow> alloc_column \<Rightarrow> bool" where
  "same_on v a col_room_id = (al_room_id v = al_room_id a)"
| "same_on v a col_doctor_id = (al_doctor_id v = al_doctor_id a)"
| "same_on v a col_date = (al_date v = al_date a)"
| "same_on v a col_shift = (al_shift v = al_shift a)"
| "same_on v a col_created_by = (al_created_by v = al_created_by a)"

definition conflicts :: "alloc_column list \<Rightarrow> alloc_values \<Rightarrow> alloc_row \<Rightarrow> bool" where
  "conflicts cols v a = list_all (same_on v a) cols"

definition stored :: "alloc_values \<Rightarrow> nat \<Rightarrow> alloc_row" where
  "stored v i =
     \<lparr>al_room_id = al_room_id v, al_doctor_id = al_doctor_id v, al_date = al_date v,
      al_shift = al_shift v, al_created_by = al_created_by v, al_id = i\<rparr>"

definition upsert_allocation ::
  "transport \<Rightarrow> alloc_values \<Rightarrow> alloc_column list \<Rightarrow> remote \<Rightarrow> jsstring option \<times> remote" where
  "upsert_allocation t v onConflict db =
     (case t of
        Failed e \<Rightarrow> (Some e, issue Upsert Room_allocations db)
      | Delivered \<Rightarrow>
          if list_ex (conflicts onConflict v) (db_room_allocations db)
          then (None, issue Upsert Room_allocations
                  (db\<lparr>db_room_allocations :=
                        map (\<lambda>a. if conflicts onConflict v a then stored v (al_id a) else a)
                            (db_room_allocations db)\<rparr>))
          else (None, issue Upsert Room_allocations
                  (db\<lparr>db_room_allocations :=
                        db_room_allocations db @ [stored v (next_alloc_id db)],
                      next_alloc_id := Suc (next_alloc_id db)\<rparr>)))"

text \<open>\<open>.delete().eq('room_id', r).eq('date', d).eq('shift', s)\<close>: no matching row is no error.\<close>

definition delete_allocations ::
  "transport \<Rightarrow> nat \<Rightarrow> jsstring \<Rightarrow> shift \<Rightarrow> remote \<Rightarrow> jsstring option \<times> remote" where
  "delete_allocations t r d s db =
     (case t of
        Failed e \<Rightarrow> (Some e, issue Delete Room_allocations db)
      | Delivered \<Rightarrow>
          (None, issue Delete Room_allocations
             (db\<lparr>db_room_allocations :=
                   filter (\<lambda>a. \<not> (al_room_id a = r \<and> al_date a = d \<and> al_shift a = s))
                          (db_room_allocations db)\<rparr>)))"

section \<open>Effects every page shares\<close>

text \<open>
  \<open>alert(msg)\<close> shows a dialog to the user; \<open>console.error\<close> writes to the developer
  console only.  Both are recorded in the page state.  The toast of the users and
  professionals pages is the state \<open>toastMessage\<close> (a timer clears it after three
  seconds; the timer is not modelled).
\<close>

record browser =
  alerts :: "jsstring list"
  console_errors :: "jsstring list"

record toast_page = browser +
  toastMessage :: "jsstring option"
  loading :: bool
  isModalOpen :: bool

definition alert :: "jsstring \<Rightarrow> 'a browser_scheme \<Rightarrow> 'a browser_scheme" where
  "alert msg ui = ui\<lparr>alerts := alerts ui @ [msg]\<rparr>"

definition console_error :: "jsstring \<Rightarrow> 'a browser_scheme \<Rightarrow> 'a browser_scheme" where
  "console_error msg ui = ui\<lparr>console_errors := console_errors ui @ [msg]\<rparr>"

definition showToast :: "jsstring \<Rightarrow> 'a toast_page_scheme \<Rightarrow> 'a toast_page_scheme" where
  "showToast msg ui = ui\<lparr>toastMessage := Some msg\<rparr>"

section \<open>The users page\<close>

record UnifiedUser =
  uu_id :: jsstring
  uu_name :: jsstring
  uu_roleType :: "jsstring option"
  uu_roleDisplay :: jsstring
  uu_phone :: jsstring
  uu_avatar :: jsstring
  uu_status :: jsstring
  uu_isAdmin :: bool
  uu_email :: "jsstring option"
  uu_gender :: "jsstring option"
  uu_originalData :: profile_row

record users_form =
  f_name :: jsstring
  f_phone :: jsstring
  f_role :: "jsstring option"
  f_roleDisplay :: jsstring
  f_email :: jsstring
  f_gender :: jsstring
  f_isAdmin :: bool

record users_page = toast_page +
  users :: "UnifiedUser list"
  editingUser :: "UnifiedUser option"
  formData :: users_form

text \<open>The row mapping of \<open>fetchUsers\<close>.\<close>

definition mapUser :: "profile_row \<Rightarrow> UnifiedUser" where
  "mapUser p =
     \<lparr>uu_id = pr_id p,
      uu_name = js_or (pr_name p) (lit ''Sem Nome''),
      uu_roleType = pr_role p,
      uu_roleDisplay = js_or (pr_specialty p)
         (if pr_role p = Some (lit ''reception'') then lit ''Recep'' @ [231, 227] @ lit ''o''
          else lit ''M'' @ [233] @ lit ''dico''),
      uu_phone = js_or (pr_phone p) [],
      uu_avatar = js_or (pr_avatar p) [],
      uu_status = js_or (pr_status p) (lit ''offline''),
      uu_isAdmin = truthy (pr_is_admin p),
      uu_email = pr_email p,
      uu_gender = pr_gender p,
      uu_originalData = p\<rparr>"

definition fetchUsers :: "transport \<Rightarrow> users_page \<times> remote \<Rightarrow> users_page \<times> remote" where
  "fetchUsers t = (\<lambda>(ui, db).
     let ui1 = ui\<lparr>loading := True\<rparr>;
         (rep, db1) = select_profiles t (\<lambda>p. True) db
     in (case rep of
           Reply data (Some e) \<Rightarrow>
             ((showToast (lit ''Erro ao carregar usu'' @ [225] @ lit ''rios.'')
                 (console_error (lit ''Error loading users:'') ui1))\<lparr>loading := False\<rparr>, db1)
         | Reply None None \<Rightarrow> (ui1\<lparr>loading := False\<rparr>, db1)
         | Reply (Some rows) None \<Rightarrow>
             (ui1\<lparr>users := map mapUser rows, loading := False\<rparr>, db1)))"

definition toggleAdmin ::
  "User option \<Rightarrow> jsstring \<Rightarrow> bool \<Rightarrow> transport \<Rightarrow> users_page \<times> remote
     \<Rightarrow> users_page \<times> remote" where
  "toggleAdmin currentUser userId currentStatus t = (\<lambda>(ui, db).
     if Some userId = map_option usr_id currentUser
     then (alert (lit ''Voc'' @ [234] @ lit '' n'' @ [227] @ lit ''o pode alterar seu pr''
                    @ [243] @ lit ''prio status de administrador por aqui.'') ui, db)
     else
       (case update_profiles t (\<lambda>r. pr_id r = userId)
               (\<lambda>r. r\<lparr>pr_is_admin := Some (\<not> currentStatus)\<rparr>) db of
          (Some e, db1) \<Rightarrow>
            (showToast (lit ''Erro ao alterar permiss'' @ [227] @ lit ''o.'')
               (console_error (lit ''Error toggling admin:'') ui), db1)
        | (None, db1) \<Rightarrow>
            (showToast (if \<not> currentStatus
                        then lit ''Usu'' @ [225] @ lit ''rio promovido a Admin!''
                        else lit ''Status de Admin removido.'') ui, db1)))"

text \<open>\<open>confirmed\<close> is the answer the user gives to \<open>window.confirm\<close>.\<close>

definition handleDeleteUser ::
  "User option \<Rightarrow> jsstring \<Rightarrow> bool \<Rightarrow> transport \<Rightarrow> transport \<Rightarrow> users_page \<times> remote
     \<Rightarrow> users_page \<times> remote" where
  "handleDeleteUser currentUser userId confirmed t_delete t_fetch = (\<lambda>(ui, db).
     if Some userId = map_option usr_id currentUser
     then (alert (lit ''Voc'' @ [234] @ lit '' n'' @ [227] @ lit ''o pode excluir seu pr''
                    @ [243] @ lit ''prio usu'' @ [225] @ lit ''rio.'') ui, db)
     else if confirmed
     then
       (case delete_profiles t_delete (\<lambda>r. pr_id r = userId) db of
          (Some e, db1) \<Rightarrow>
            (showToast (lit ''Erro ao remover usu'' @ [225] @ lit ''rio.'')
               (console_error (lit ''Error deleting user:'') ui), db1)
        | (None, db1) \<Rightarrow>
            fetchUsers t_fetch
              (showToast (lit ''Usu'' @ [225] @ lit ''rio removido com sucesso.'') ui, db1))
     else (ui, db))"

definition openEditModal :: "UnifiedUser \<Rightarrow> users_page \<Rightarrow> users_page" where
  "openEditModal u ui =
     ui\<lparr>editingUser := Some u,
        formData := \<lparr>f_name = uu_name u, f_phone = uu_phone u, f_role = uu_roleType u,
                     f_roleDisplay = uu_roleDisplay u, f_email = js_or (uu_email u) [],
                     f_gender = js_or (uu_gender u) (lit ''male''), f_isAdmin = uu_isAdmin u\<rparr>,
        isModalOpen := True\<rparr>"

text \<open>The administrator checkbox of the edit form.\<close>

definition onChange_isAdmin :: "bool \<Rightarrow> users_page \<Rightarrow> users_page" where
  "onChange_isAdmin checked ui = ui\<lparr>formData := (formData ui)\<lparr>f_isAdmin := checked\<rparr>\<rparr>"

text \<open>
  \<open>handleSaveUser\<close>; \<open>encodeURIComponent\<close> is the built-in of that name and \<open>uuid\<close> the
  value \<open>crypto.randomUUID()\<close> returns.
\<close>

definition handleSaveUser ::
  "(jsstring \<Rightarrow> jsstring) \<Rightarrow> jsstring \<Rightarrow> transport \<Rightarrow> transport \<Rightarrow> users_page \<times> remote
     \<Rightarrow> users_page \<times> remote" where
  "handleSaveUser encodeURIComponent uuid t_write t_fetch = (\<lambda>(ui, db).
     let fd = formData ui in
     if f_name fd = [] \<or> f_roleDisplay fd = []
     then (alert (lit ''Nome e Setor/Especialidade s'' @ [227] @ lit ''o obrigat'' @ [243]
                    @ lit ''rios.'') ui, db)
     else
       let avatar = lit ''https://ui-avatars.com/api/?name='' @ encodeURIComponent (f_name fd)
                    @ lit ''&background=''
                    @ (if f_role fd = Some (lit ''reception'') then lit ''f97316''
                       else lit ''10605B'')
                    @ lit ''&color=fff'';
           (err, db1, done) =
             (case editingUser ui of
                Some u \<Rightarrow>
                  (case update_profiles t_write (\<lambda>r. pr_id r = uu_id u)
                          (\<lambda>r. r\<lparr>pr_name := Some (f_name fd), pr_phone := Some (f_phone fd),
                                 pr_role := f_role fd, pr_specialty := Some (f_roleDisplay fd),
                                 pr_email := Some (f_email fd), pr_gender := Some (f_gender fd),
                                 pr_is_admin := Some (f_isAdmin fd),
                                 pr_avatar := Some avatar\<rparr>) db of
                     (e, d) \<Rightarrow> (e, d, lit ''Usu'' @ [225] @ lit ''rio atualizado com sucesso!''))
              | None \<Rightarrow>
                  (case insert_profile t_write
                          \<lparr>pr_id = uuid, pr_name = Some (f_name fd), pr_email = Some (f_email fd),
                           pr_role = f_role fd, pr_specialty = Some (f_roleDisplay fd),
                           pr_phone = Some (f_phone fd), pr_avatar = Some avatar,
                           pr_status = None, pr_gender = Some (f_gender fd),
                           pr_is_admin = Some (f_isAdmin fd)\<rparr> db of
                     (e, d) \<Rightarrow> (e, d, lit ''Novo usu'' @ [225] @ lit ''rio criado!'')))
       in (case err of
             Some e \<Rightarrow>
               (showToast (lit ''Erro ao salvar usu'' @ [225] @ lit ''rio.'')
                  (console_error (lit ''Error saving user:'') ui), db1)
           | None \<Rightarrow> fetchUsers t_fetch ((showToast done ui)\<lparr>isModalOpen := False\<rparr>, db1)))"

section \<open>The professionals page\<close>

text \<open>
  Modelled from the spec: the type \<open>Doctor\<close> is imported from \<open>../types\<close>, which is
  not among the sources; its fields are those the mappings of the pages fill.
\<close>

record Doctor =
  d_id :: jsstring
  d_name :: jsstring
  d_specialty :: jsstring
  d_sector :: jsstring
  d_phone :: jsstring
  d_avatar :: jsstring
  d_status :: jsstring
  d_color :: jsstring
  d_gender :: "jsstring option"
  d_isAdmin :: "bool option"

record professionals_form =
  pf_name :: jsstring
  pf_specialty :: jsstring
  pf_phone :: jsstring
  pf_gender :: jsstring
  pf_sector :: jsstring
  pf_status :: jsstring

record professionals_page = toast_page +
  professionals :: "Doctor list"
  editingProfessional :: "Doctor option"
  prof_formData :: professionals_form

text \<open>The row mapping of \<open>fetchProfessionals\<close>: the column \<open>specialty\<close> stores "Specialty | Sector".\<close>

definition mapProfessional :: "profile_row \<Rightarrow> Doctor" where
  "mapProfessional p =
     (let parts = split_str (js_or (pr_specialty p) []) (lit '' | '') in
      \<lparr>d_id = pr_id p,
       d_name = js_or (pr_name p) (lit ''Sem Nome''),
       d_specialty = trim (js_or (at_index parts 0) (lit ''Geral'')),
       d_sector = trim (js_or (at_index parts 1) []),
       d_phone = js_or (pr_phone p) [],
       d_avatar = js_or (pr_avatar p) [],
       d_status = js_or (pr_status p) (lit ''active''),
       d_color = [],
       d_gender = Some (js_or (pr_gender p) (lit ''male'')),
       d_isAdmin = Some (truthy (pr_is_admin p))\<rparr>)"

definition fetchProfessionals ::
  "transport \<Rightarrow> professionals_page \<times> remote \<Rightarrow> professionals_page \<times> remote" where
  "fetchProfessionals t = (\<lambda>(ui, db).
     let ui1 = ui\<lparr>loading := True\<rparr>;
         (rep, db1) = select_profiles t (\<lambda>p. pr_role p = Some (lit ''doctor'')) db
     in (case rep of
           Reply data (Some e) \<Rightarrow>
             ((showToast (lit ''Erro ao carregar profissionais: ''
                            @ js_or (Some e) (lit ''Erro desconhecido''))
                 (console_error (lit ''Catch error fetching professionals:'')
                    (console_error (lit ''Supabase error fetching professionals:'') ui1)))
                \<lparr>loading := False\<rparr>, db1)
         | Reply None None \<Rightarrow> (ui1\<lparr>loading := False\<rparr>, db1)
         | Reply (Some rows) None \<Rightarrow>
             (ui1\<lparr>professionals := map mapProfessional rows, loading := False\<rparr>, db1)))"

text \<open>\<open>handleSave\<close> stores specialty and sector joined by the delimiter.\<close>

definition combinedSpecialty :: "professionals_form \<Rightarrow> jsstring" where
  "combinedSpecialty fd = pf_specialty fd @ lit '' | '' @ pf_sector fd"

definition handleSave ::
  "jsstring \<Rightarrow> transport \<Rightarrow> transport \<Rightarrow> professionals_page \<times> remote
     \<Rightarrow> professionals_page \<times> remote" where
  "handleSave uuid t_write t_fetch = (\<lambda>(ui, db).
     let fd = prof_formData ui in
     if pf_name fd = []
     then (alert (lit ''Nome '' @ [233] @ lit '' obrigat'' @ [243] @ lit ''rio.'') ui, db)
     else
       let title = (if pf_gender fd = lit ''male'' then lit ''Dr'' @ [186] else lit ''Dr'' @ [170]);
           fullName = title @ lit '' '' @ pf_name fd;
           (err, db1, done) =
             (case editingProfessional ui of
                Some d \<Rightarrow>
                  (case update_profiles t_write (\<lambda>r. pr_id r = d_id d)
                          (\<lambda>r. r\<lparr>pr_name := Some fullName,
                                 pr_specialty := Some (combinedSpecialty fd),
                                 pr_phone := Some (pf_phone fd), pr_gender := Some (pf_gender fd),
                                 pr_status := Some (pf_status fd),
                                 pr_role := Some (lit ''doctor'')\<rparr>) db of
                     (e, d') \<Rightarrow> (e, d', lit ''Profissional atualizado com sucesso!''))
              | None \<Rightarrow>
                  (case insert_profile t_write
                          \<lparr>pr_id = uuid, pr_name = Some fullName, pr_email = None,
                           pr_role = Some (lit ''doctor''),
                           pr_specialty = Some (combinedSpecialty fd),
                           pr_phone = Some (pf_phone fd), pr_avatar = None,
                           pr_status = Some (pf_status fd), pr_gender = Some (pf_gender fd),
                           pr_is_admin = None\<rparr> db of
                     (e, d') \<Rightarrow> (e, d', lit ''Profissional criado com sucesso!'')))
       in (case err of
             Some e \<Rightarrow>
               (showToast (lit ''Erro ao salvar profissional.'')
                  (console_error (lit ''Error saving professional:'') ui), db1)
           | None \<Rightarrow>
               fetchProfessionals t_fetch ((showToast done ui)\<lparr>isModalOpen := False\<rparr>, db1)))"

text \<open>\<open>handleDelete\<close> of the professionals page; \<open>confirmed\<close> answers \<open>window.confirm\<close>.\<close>

definition handleDelete ::
  "jsstring \<Rightarrow> bool \<Rightarrow> transport \<Rightarrow> transport \<Rightarrow> professionals_page \<times> remote
     \<Rightarrow> professionals_page \<times> remote" where
  "handleDelete i confirmed t_delete t_fetch = (\<lambda>(ui, db).
     if \<not> confirmed then (ui, db)
     else
       (case delete_profiles t_delete (\<lambda>r. pr_id r = i) db of
          (Some e, db1) \<Rightarrow>
            (showToast (lit ''Erro ao excluir profissional.'')
               (console_error (lit ''Error deleting professional:'') ui), db1)
        | (None, db1) \<Rightarrow>
            fetchProfessionals t_fetch
              (showToast (lit ''Profissional exclu'' @ [237] @ lit ''do.'') ui, db1)))"

section \<open>The daily map\<close>

record room_form =
  rf_name :: jsstring
  rf_extension :: jsstring

record daily_map = browser +
  currentDate :: Date
  rooms :: "room_row list"
  allocations :: "alloc_row list"
  doctors :: "Doctor list"
  doctorSearch :: jsstring
  selectedSlot :: "(nat \<times> shift) option"
  showAllocationModal :: bool
  roomForm :: room_form
  editingRoomId :: "nat option"

definition fetchRooms ::
  "AuthContext \<Rightarrow> transport \<Rightarrow> daily_map \<times> remote \<Rightarrow> daily_map \<times> remote" where
  "fetchRooms ctx t = (\<lambda>(ui, db).
     let floorToFetch = selectedFloor ctx;
         (rep, db1) = select_rooms t floorToFetch db
     in (case rep of
           Reply data (Some e) \<Rightarrow> (console_error (lit ''Error fetching rooms:'') ui, db1)
         | Reply data None \<Rightarrow>
             (ui\<lparr>rooms := (case data of None \<Rightarrow> [] | Some rs \<Rightarrow> rs)\<rparr>, db1)))"

text \<open>The row mapping of \<open>fetchDoctors\<close>; the table has no column \<open>color\<close>.\<close>

definition mapDoctor :: "profile_row \<Rightarrow> Doctor" where
  "mapDoctor p =
     (let specialtyParts = split_str (js_or (pr_specialty p) []) (lit '' | '') in
      \<lparr>d_id = pr_id p,
       d_name = js_or (pr_name p) (lit ''Sem Nome''),
       d_specialty = trim (js_or (at_index specialtyParts 0) (lit ''M'' @ [233] @ lit ''dico'')),
       d_sector = trim (js_or (at_index specialtyParts 1) []),
       d_phone = js_or (pr_phone p) [],
       d_avatar = js_or (pr_avatar p) [],
       d_status = js_or (pr_status p) (lit ''active''),
       d_color = [],
       d_gender = None,
       d_isAdmin = pr_is_admin p\<rparr>)"

definition fetchDoctors :: "transport \<Rightarrow> daily_map \<times> remote \<Rightarrow> daily_map \<times> remote" where
  "fetchDoctors t = (\<lambda>(ui, db).
     let (rep, db1) = select_profiles t (\<lambda>p. pr_role p = Some (lit ''doctor'')) db
     in (case rep of
           Reply data (Some e) \<Rightarrow> (console_error (lit ''Error fetching doctors:'') ui, db1)
         | Reply None None \<Rightarrow> (ui, db1)
         | Reply (Some rows) None \<Rightarrow> (ui\<lparr>doctors := map mapDoctor rows\<rparr>, db1)))"

text \<open>With no room in view the allocations are emptied and no request is sent.\<close>

definition fetchAllocations ::
  "room_row list option \<Rightarrow> transport \<Rightarrow> daily_map \<times> remote \<Rightarrow> daily_map \<times> remote" where
  "fetchAllocations passedRooms t = (\<lambda>(ui, db).
     let dateKey = formatDateKey (currentDate ui);
         roomsToUse = (case passedRooms of Some rs \<Rightarrow> rs | None \<Rightarrow> rooms ui);
         roomIds = map rm_id roomsToUse
     in if roomIds = [] then (ui\<lparr>allocations := []\<rparr>, db)
        else
          (case select_allocations t dateKey roomIds db of
             (Reply data (Some e), db1) \<Rightarrow>
               (console_error (lit ''Error fetching allocations:'') ui, db1)
           | (Reply data None, db1) \<Rightarrow>
               (ui\<lparr>allocations := (case data of None \<Rightarrow> [] | Some rows \<Rightarrow> rows)\<rparr>, db1)))"

definition getAllocation :: "daily_map \<Rightarrow> nat \<Rightarrow> shift \<Rightarrow> alloc_row option" where
  "getAllocation ui roomId sh =
     find (\<lambda>a. al_room_id a = roomId \<and> al_shift a = sh) (allocations ui)"

definition handleSaveRoom ::
  "AuthContext \<Rightarrow> transport \<Rightarrow> transport \<Rightarrow> daily_map \<times> remote \<Rightarrow> daily_map \<times> remote" where
  "handleSaveRoom ctx t_write t_fetch = (\<lambda>(ui, db).
     if trim (rf_name (roomForm ui)) = [] then (ui, db)
     else
       (case (case editingRoomId ui of
                Some i \<Rightarrow> update_room t_write i (rf_name (roomForm ui))
                            (rf_extension (roomForm ui)) db
              | None \<Rightarrow> insert_room t_write (rf_name (roomForm ui))
                          (rf_extension (roomForm ui)) (selectedFloor ctx)
                          (int (length (rooms ui))) db) of
          (Some e, db1) \<Rightarrow>
            (alert (lit ''Erro ao salvar sala: '' @ e)
               (console_error (lit ''Error saving room:'') ui), db1)
        | (None, db1) \<Rightarrow>
            (case fetchRooms ctx t_fetch (ui, db1) of
               (ui2, db2) \<Rightarrow>
                 (ui2\<lparr>roomForm := \<lparr>rf_name = [], rf_extension = []\<rparr>,
                      editingRoomId := None\<rparr>, db2))))"

text \<open>The answer of the delete request is not inspected.\<close>

definition handleDeleteRoom ::
  "AuthContext \<Rightarrow> nat \<Rightarrow> bool \<Rightarrow> transport \<Rightarrow> transport \<Rightarrow> daily_map \<times> remote
     \<Rightarrow> daily_map \<times> remote" where
  "handleDeleteRoom ctx i confirmed t_delete t_fetch = (\<lambda>(ui, db).
     if confirmed
     then (case delete_room t_delete i db of (e, db1) \<Rightarrow> fetchRooms ctx t_fetch (ui, db1))
     else (ui, db))"

definition handleAssignDoctor ::
  "AuthContext \<Rightarrow> jsstring \<Rightarrow> transport \<Rightarrow> transport \<Rightarrow> daily_map \<times> remote
     \<Rightarrow> daily_map \<times> remote" where
  "handleAssignDoctor ctx doctorId t_upsert t_fetch = (\<lambda>(ui, db).
     case selectedSlot ui of
       None \<Rightarrow> (ui, db)
     | Some (roomId, sh) \<Rightarrow>
         (let dateKey = formatDateKey (currentDate ui) in
          case upsert_allocation t_upsert
                 \<lparr>al_room_id = roomId, al_doctor_id = doctorId, al_date = dateKey,
                  al_shift = sh, al_created_by = map_option usr_id (user ctx)\<rparr>
                 [col_room_id, col_date, col_shift] db of
            (Some e, db1) \<Rightarrow>
              (alert (lit ''Erro ao realizar aloca'' @ [231, 227] @ lit ''o: '' @ e)
                 (console_error (lit ''Failed to assign doctor:'') ui), db1)
          | (None, db1) \<Rightarrow>
              fetchAllocations None t_fetch (ui\<lparr>showAllocationModal := False\<rparr>, db1)))"

definition handleClearSlot ::
  "transport \<Rightarrow> transport \<Rightarrow> daily_map \<times> remote \<Rightarrow> daily_map \<times> remote" where
  "handleClearSlot t_delete t_fetch = (\<lambda>(ui, db).
     case selectedSlot ui of
       None \<Rightarrow> (ui, db)
     | Some (roomId, sh) \<Rightarrow>
         (let dateKey = formatDateKey (currentDate ui) in
          case delete_allocations t_delete roomId dateKey sh db of
            (Some e, db1) \<Rightarrow>
              (alert (lit ''Erro ao remover aloca'' @ [231, 227] @ lit ''o: '' @ e)
                 (console_error (lit ''Error clearing slot:'') ui), db1)
          | (None, db1) \<Rightarrow>
              (case fetchAllocations None t_fetch (ui, db1) of
                 (ui2, db2) \<Rightarrow> (ui2\<lparr>showAllocationModal := False\<rparr>, db2))))"

subsection \<open>The allocation modal\<close>

text \<open>
  A click on a slot of the grid opens the modal when the user may edit.  The modal
  offers one button per doctor of the filtered and sorted list; the button calls
  \<open>handleAssignDoctor\<close> with the identifier of its doctor.  \<open>toLowerCase\<close> and
  \<open>localeCompare\<close> are the built-ins of those names.
\<close>

definition canEdit :: "AuthContext \<Rightarrow> bool" where
  "canEdit ctx = (map_option usr_role (user ctx) \<noteq> Some (lit ''doctor''))"

definition clickSlot :: "AuthContext \<Rightarrow> nat \<Rightarrow> shift \<Rightarrow> daily_map \<Rightarrow> daily_map" where
  "clickSlot ctx roomId sh ui =
     (if canEdit ctx then ui\<lparr>selectedSlot := Some (roomId, sh), showAllocationModal := True\<rparr>
      else ui)"

definition offeredDoctors ::
  "(jsstring \<Rightarrow> jsstring) \<Rightarrow> (jsstring \<Rightarrow> jsstring \<Rightarrow> int) \<Rightarrow> AuthContext \<Rightarrow> daily_map
     \<Rightarrow> Doctor list" where
  "offeredDoctors toLowerCase localeCompare ctx ui =
     sort_by (\<lambda>a b. localeCompare (d_name a) (d_name b))
       (filter (\<lambda>d. includes_str (toLowerCase (d_name d)) (toLowerCase (doctorSearch ui))
                     \<and> d_sector d = selectedFloor ctx)
               (doctors ui))"

definition clickDoctor ::
  "(jsstring \<Rightarrow> jsstring) \<Rightarrow> (jsstring \<Rightarrow> jsstring \<Rightarrow> int) \<Rightarrow> AuthContext \<Rightarrow> nat
     \<Rightarrow> transport \<Rightarrow> transport \<Rightarrow> daily_map \<times> remote \<Rightarrow> daily_map \<times> remote" where
  "clickDoctor toLowerCase localeCompare ctx n t_upsert t_fetch = (\<lambda>(ui, db).
     if showAllocationModal ui
     then (case at_index (offeredDoctors toLowerCase localeCompare ctx ui) n of
             Some doctor \<Rightarrow> handleAssignDoctor ctx (d_id doctor) t_upsert t_fetch (ui, db)
           | None \<Rightarrow> (ui, db))
     else (ui, db))"

section \<open>Notions used to state the properties\<close>

subsection \<open>The shape of a date key\<close>

text \<open>
  The zero-padded key \<open>YYYY-MM-DD\<close> as the specification words it: ten code units, four
  digits of the year, a hyphen, two digits of the month counted from 1, a hyphen and two
  digits of the day.
\<close>

definition is_digit :: "nat \<Rightarrow> bool" where
  "is_digit c = (48 \<le> c \<and> c \<le> 57)"

definition decimal :: "jsstring \<Rightarrow> nat" where
  "decimal s = foldl (\<lambda>acc c. 10 * acc + (c - 48)) 0 s"

definition is_YYYY_MM_DD :: "jsstring \<Rightarrow> nat \<Rightarrow> nat \<Rightarrow> nat \<Rightarrow> bool" where
  "is_YYYY_MM_DD k y m d =
     (length k = 10 \<and> k ! 4 = 45 \<and> k ! 7 = 45
      \<and> list_all is_digit (take 4 k @ take 2 (drop 5 k) @ drop 8 k)
      \<and> decimal (take 4 k) = y \<and> decimal (take 2 (drop 5 k)) = m \<and> decimal (drop 8 k) = d)"

subsection \<open>Slots of the allocation table\<close>

type_synonym slot = "nat \<times> jsstring \<times> shift"

definition slot_of :: "'a alloc_values_scheme \<Rightarrow> slot" where
  "slot_of a = (al_room_id a, al_date a, al_shift a)"

definition rows_of_slot :: "slot \<Rightarrow> alloc_row list \<Rightarrow> alloc_row list" where
  "rows_of_slot k rows = filter (\<lambda>a. slot_of a = k) rows"

definition doctor_of_slot :: "slot \<Rightarrow> alloc_row list \<Rightarrow> jsstring option" where
  "doctor_of_slot k rows = map_option al_doctor_id (find (\<lambda>a. slot_of a = k) rows)"

text \<open>Modelled from the spec: the uniqueness constraint of the table \<open>room_allocations\<close>
  on (room\_id, date, shift), which the store enforces.\<close>

definition unique_slots :: "alloc_row list \<Rightarrow> bool" where
  "unique_slots rows = distinct (map slot_of rows)"

subsection \<open>Sequences of calls against the store\<close>

text \<open>
  Several clients write to the one store.  A call of \<open>handleAssignDoctor\<close> is given with
  the context and page state of the client that makes it, the doctor chosen and what the
  transport does with its two requests; the calls reach the store one after the other.
\<close>

record assign_call =
  ac_ctx :: AuthContext
  ac_ui :: daily_map
  ac_doctorId :: jsstring
  ac_upsert :: transport
  ac_fetch :: transport

definition assign :: "assign_call \<Rightarrow> remote \<Rightarrow> remote" where
  "assign c db =
     snd (handleAssignDoctor (ac_ctx c) (ac_doctorId c) (ac_upsert c) (ac_fetch c) (ac_ui c, db))"

definition assigns :: "assign_call list \<Rightarrow> remote \<Rightarrow> remote" where
  "assigns cs db = foldl (\<lambda>d c. assign c d) db cs"

text \<open>The slot a call commits to: it has a slot selected and its upsert is delivered.\<close>

definition committed_slot :: "assign_call \<Rightarrow> slot option" where
  "committed_slot c =
     (case selectedSlot (ac_ui c) of
        None \<Rightarrow> None
      | Some (r, s) \<Rightarrow>
          (case ac_upsert c of
             Delivered \<Rightarrow> Some (r, formatDateKey (currentDate (ac_ui c)), s)
           | Failed e \<Rightarrow> None))"

text \<open>The doctor of the most recent committed call for a slot (calls in the order made).\<close>

fun last_assigned :: "slot \<Rightarrow> assign_call list \<Rightarrow> jsstring option" where
  "last_assigned k [] = None"
| "last_assigned k (c # cs) =
     (case last_assigned k cs of
        Some d \<Rightarrow> Some d
      | None \<Rightarrow> if committed_slot c = Some k then Some (ac_doctorId c) else None)"

text \<open>The writers of the rooms table, each with the state of the client that calls.\<close>

datatype room_event =
  Save_room AuthContext daily_map transport transport
| Delete_room AuthContext daily_map nat bool transport transport

fun room_step :: "room_event \<Rightarrow> remote \<Rightarrow> remote" where
  "room_step (Save_room ctx ui t_write t_fetch) db =
     snd (handleSaveRoom ctx t_write t_fetch (ui, db))"
| "room_step (Delete_room ctx ui i confirmed t_delete t_fetch) db =
     snd (handleDeleteRoom ctx i confirmed t_delete t_fetch (ui, db))"

definition room_steps :: "room_event list \<Rightarrow> remote \<Rightarrow> remote" where
  "room_steps evs db = foldl (\<lambda>d e. room_step e d) db evs"

text \<open>Every stored room got its identifier from the counter.\<close>

definition rooms_ok :: "remote \<Rightarrow> bool" where
  "rooms_ok db = list_all (\<lambda>r. rm_id r < next_room_id db) (db_rooms db)"

subsection \<open>Example data\<close>

definition CDU :: jsstring where
  "CDU = lit ''CDU - CENTRO DE DIAGN'' @ [211] @ lit ''STICO UNIMED''"

definition floor_8 :: jsstring where
  "floor_8 = lit ''8'' @ [186] @ lit '' Andar ( CL'' @ [205] @ lit ''NICA M'' @ [201]
               @ lit ''DICA / CARDIOLOGIA )''"

definition blank_profile :: "jsstring \<Rightarrow> profile_row" where
  "blank_profile i =
     \<lparr>pr_id = i, pr_name = None, pr_email = None, pr_role = None, pr_specialty = None,
      pr_phone = None, pr_avatar = None, pr_status = None, pr_gender = None,
      pr_is_admin = None\<rparr>"

definition cardiologist :: profile_row where
  "cardiologist =
     (blank_profile (lit ''d1''))
       \<lparr>pr_name := Some (lit ''Dr'' @ [186] @ lit '' Ricardo Silva''),
        pr_role := Some (lit ''doctor''),
        pr_specialty := Some (lit ''Cardiologia | '' @ floor_8)\<rparr>"

definition radiologist :: profile_row where
  "radiologist =
     (blank_profile (lit ''d2''))
       \<lparr>pr_name := Some (lit ''Dr'' @ [170] @ lit '' Ana Souza''),
        pr_role := Some (lit ''doctor''),
        pr_specialty := Some (lit ''Radiologia | '' @ CDU),
        pr_status := Some (lit ''vacation'')\<rparr>"

definition administrator :: profile_row where
  "administrator =
     (blank_profile (lit ''u1''))
       \<lparr>pr_name := Some (lit ''Ana''), pr_role := Some (lit ''reception''),
        pr_specialty := Some CDU, pr_is_admin := Some True\<rparr>"

definition me :: User where
  "me = \<lparr>usr_id = lit ''u1'', usr_name = lit ''Ana'', usr_role = lit ''reception'',
         usr_isAdmin = True\<rparr>"

definition empty_store :: remote where
  "empty_store =
     \<lparr>db_profiles = [], db_rooms = [], db_room_allocations = [], next_room_id = 0,
      next_alloc_id = 0, requests = []\<rparr>"

definition staffed_store :: remote where
  "staffed_store = empty_store\<lparr>db_profiles := [administrator, cardiologist, radiologist]\<rparr>"

definition at_CDU :: AuthContext where
  "at_CDU = \<lparr>user = Some me, selectedFloor = CDU\<rparr>"

definition at_floor_8 :: AuthContext where
  "at_floor_8 = \<lparr>user = Some me, selectedFloor = floor_8\<rparr>"

definition fresh_users_page :: users_page where
  "fresh_users_page =
     \<lparr>alerts = [], console_errors = [], toastMessage = None, loading = True,
      isModalOpen = False, users = [], editingUser = None,
      formData = \<lparr>f_name = [], f_phone = [], f_role = Some (lit ''reception''),
                  f_roleDisplay = [], f_email = [], f_gender = lit ''male'',
                  f_isAdmin = False\<rparr>\<rparr>"

definition fresh_professionals_page :: professionals_page where
  "fresh_professionals_page =
     \<lparr>alerts = [], console_errors = [], toastMessage = None, loading = True,
      isModalOpen = False, professionals = [], editingProfessional = None,
      prof_formData = \<lparr>pf_name = [], pf_specialty = [], pf_phone = [], pf_gender = lit ''male'',
                       pf_sector = hd FLOOR_OPTIONS, pf_status = lit ''active''\<rparr>\<rparr>"

definition fresh_map :: daily_map where
  "fresh_map =
     \<lparr>alerts = [], console_errors = [], currentDate = Local_Date 2024 0 10, rooms = [],
      allocations = [], doctors = [], doctorSearch = [], selectedSlot = None,
      showAllocationModal = False, roomForm = \<lparr>rf_name = [], rf_extension = []\<rparr>,
      editingRoomId = None\<rparr>"

text \<open>The map of a client that typed the room "Sala 1" with extension "201".\<close>

definition typed_room :: daily_map where
  "typed_room = fresh_map\<lparr>roomForm := \<lparr>rf_name = lit ''Sala 1'', rf_extension = lit ''201''\<rparr>\<rparr>"

text \<open>The store and the map of a client once "Sala 1" exists at the CDU.\<close>

definition sala_1 :: room_row where
  "sala_1 = \<lparr>rm_id = 0, rm_name = lit ''Sala 1'', rm_extension = Some (lit ''201''),
             rm_sector = CDU, rm_order = 0\<rparr>"

definition one_room_store :: remote where
  "one_room_store = staffed_store\<lparr>db_rooms := [sala_1], next_room_id := 1\<rparr>"

definition one_room_map :: daily_map where
  "one_room_map = fresh_map\<lparr>rooms := [sala_1]\<rparr>"

text \<open>The store once the radiologist is booked for the morning of 2024-01-10 in "Sala 1",
  and the map of a client that opened this slot.\<close>

definition booking :: alloc_row where
  "booking = \<lparr>al_room_id = 0, al_doctor_id = lit ''d2'', al_date = lit ''2024-01-10'',
               al_shift = morning, al_created_by = Some (lit ''u1''), al_id = 0\<rparr>"

definition booked_store :: remote where
  "booked_store = one_room_store\<lparr>db_room_allocations := [booking], next_alloc_id := 1\<rparr>"

definition slot_open_map :: daily_map where
  "slot_open_map =
     one_room_map\<lparr>doctors := map mapDoctor [cardiologist, radiologist],
                   selectedSlot := Some (0, morning), showAllocationModal := True\<rparr>"

text \<open>Two clients assign the same slot, first the cardiologist, then the radiologist.\<close>

definition first_call :: assign_call where
  "first_call = \<lparr>ac_ctx = at_CDU, ac_ui = slot_open_map, ac_doctorId = lit ''d1'',
                  ac_upsert = Delivered, ac_fetch = Delivered\<rparr>"

definition second_call :: assign_call where
  "second_call = \<lparr>ac_ctx = at_CDU, ac_ui = slot_open_map, ac_doctorId = lit ''d2'',
                   ac_upsert = Delivered, ac_fetch = Failed (lit ''Failed to fetch'')\<rparr>"

text \<open>The rows after a delivered upsert of \<open>v\<close> on the conflict target (room\_id, date,
  shift), said with slots; \<open>n\<close> is the next identifier of the table.\<close>

definition upserted :: "alloc_values \<Rightarrow> nat \<Rightarrow> alloc_row list \<Rightarrow> alloc_row list" where
  "upserted v n rows =
     (if slot_of v \<in> slot_of ` set rows
      then map (\<lambda>a. if slot_of a = slot_of v then stored v (al_id a) else a) rows
      else rows @ [stored v n])"

text \<open>The room with identifier \<open>i\<close>, as long as it is stored, is a room of sector \<open>S\<close>,
  and \<open>i\<close> has been handed out.\<close>

definition created_in :: "nat \<Rightarrow> jsstring \<Rightarrow> remote \<Rightarrow> bool" where
  "created_in i S db =
     (i < next_room_id db \<and> list_all (\<lambda>r. rm_id r = i \<longrightarrow> rm_sector r = S) (db_rooms db))"

text \<open>Later writers of the rooms table: a client on the eighth floor creates a room of
  the same name, another one deletes a room.\<close>

definition later_room_events :: "room_event list" where
  "later_room_events =
     [Save_room at_floor_8 typed_room Delivered Delivered,
      Delete_room at_CDU fresh_map 5 True Delivered (Failed (lit ''Failed to fetch''))]"

text \<open>The room the client on the eighth floor creates after "Sala 1" of the CDU exists.\<close>

definition sala_1_on_8 :: room_row where
  "sala_1_on_8 = \<lparr>rm_id = 1, rm_name = lit ''Sala 1'', rm_extension = Some (lit ''201''),
                  rm_sector = floor_8, rm_order = 0\<rparr>"

text \<open>A professional typed without a specialty for the CDU, the page that holds the
  form, and a row whose stored specialty has blanks around the delimiter.\<close>

definition no_specialty_form :: professionals_form where
  "no_specialty_form =
     \<lparr>pf_name = lit ''Ana Souza'', pf_specialty = [], pf_phone = [], pf_gender = lit ''female'',
      pf_sector = CDU, pf_status = lit ''active''\<rparr>"

definition no_specialty_page :: professionals_page where
  "no_specialty_page = fresh_professionals_page\<lparr>prof_formData := no_specialty_form\<rparr>"

definition padded_row :: profile_row where
  "padded_row =
     (blank_profile (lit ''d4''))
       \<lparr>pr_role := Some (lit ''doctor''), pr_specialty := Some (lit ''Cardio  |  Setor'')\<rparr>"

section \<open>Facts about the string operations\<close>

lemma split_from_not_Nil: "split_from sep cur s \<noteq> []"
  by (induction sep cur s rule: split_from.induct) auto

lemma split_from_absent: "\<not> includes_str s sep \<Longrightarrow> split_from sep cur s = [rev cur @ s]"
  by (induction s arbitrary: cur) auto

lemma starts_with_set: "starts_with s sep \<Longrightarrow> set sep \<subseteq> set s"
  unfolding starts_with_def by (metis set_take_subset)

lemma includes_str_set: "includes_str s sep \<Longrightarrow> set sep \<subseteq> set s"
proof (induction s)
  case Nil
  then show ?case by simp
next
  case (Cons c cs)
  from Cons.prems have "starts_with (c # cs) sep \<or> includes_str cs sep" by simp
  then show ?case
  proof
    assume "starts_with (c # cs) sep"
    then show ?thesis by (rule starts_with_set)
  next
    assume "includes_str cs sep"
    then have "set sep \<subseteq> set cs" by (rule Cons.IH)
    then show ?thesis by auto
  qed
qed

lemma no_pipe_absent: "124 \<notin> set s \<Longrightarrow> \<not> includes_str s (lit '' | '')"
  by (auto dest!: includes_str_set simp: lit_def)

lemma split_from_delimiter:
  "124 \<notin> set a \<Longrightarrow>
   split_from (lit '' | '') cur (a @ lit '' | '' @ b)
     = (rev cur @ a) # split_from (lit '' | '') [] b"
proof (induction a arbitrary: cur)
  case Nil
  show ?case by (simp add: lit_def starts_with_def)
next
  case (Cons c a)
  have "\<not> starts_with (c # a @ lit '' | '' @ b) (lit '' | '')"
    using Cons.prems by (cases a) (auto simp: lit_def starts_with_def)
  with Cons show ?case by simp
qed

lemma split_str_two:
  assumes "124 \<notin> set a" and "124 \<notin> set b"
  shows "split_str (a @ lit '' | '' @ b) (lit '' | '') = [a, b]"
proof -
  have "lit '' | '' \<noteq> []" by (simp add: lit_def)
  then show ?thesis
    using assms
    by (simp add: split_str_def split_from_delimiter split_from_absent no_pipe_absent)
qed

lemma split_str_absent:
  "\<not> includes_str s (lit '' | '') \<Longrightarrow> split_str s (lit '' | '') = [s]"
  by (simp add: split_str_def split_from_absent lit_def)

lemma split_str_cases:
  obtains seg0 rest where "split_str s (lit '' | '') = seg0 # rest"
proof (cases "split_str s (lit '' | '')")
  case Nil
  then show ?thesis by (simp add: split_str_def lit_def split_from_not_Nil)
next
  case (Cons seg0 rest)
  then show ?thesis by (rule that)
qed

lemma set_insert_by: "set (insert_by cmp x xs) = insert x (set xs)"
  by (induction xs) auto

lemma set_sort_by: "set (sort_by cmp xs) = set xs"
proof -
  have "set (foldl (\<lambda>acc x. insert_by cmp x acc) acc xs) = set acc \<union> set xs" for acc
    by (induction xs arbitrary: acc) (auto simp: set_insert_by)
  then show ?thesis by (simp add: sort_by_def)
qed

lemma digits_1: "n < 10 \<Longrightarrow> digits n = [48 + n]"
  by (simp add: digits.simps)

lemma digits_step: "\<not> n < 10 \<Longrightarrow> digits n = digits (n div 10) @ [48 + n mod 10]"
  by (subst digits.simps) simp

lemma digits_2: "10 \<le> n \<Longrightarrow> n < 100 \<Longrightarrow> digits n = [48 + n div 10, 48 + n mod 10]"
  by (simp add: digits_step digits_1)

lemma length_digits_4: "1000 \<le> n \<Longrightarrow> n < 10000 \<Longrightarrow> length (digits n) = 4"
  by (simp add: digits_step digits_1)

lemma padStart_2: "n < 100 \<Longrightarrow> padStart (digits n) 2 48 = [48 + n div 10, 48 + n mod 10]"
  by (cases "n < 10") (simp_all add: padStart_def digits_1 digits_2)

lemma decimal_snoc: "decimal (s @ [c]) = 10 * decimal s + (c - 48)"
  by (simp add: decimal_def)

lemma decimal_digits: "decimal (digits n) = n"
proof (induction n rule: digits.induct)
  case (1 n)
  show ?case
  proof (cases "n < 10")
    case True
    then show ?thesis by (simp add: digits_1 decimal_def)
  next
    case False
    with 1 show ?thesis by (simp add: digits_step decimal_snoc)
  qed
qed

lemma decimal_zeros: "decimal (replicate k 48 @ s) = decimal s"
proof -
  have "foldl (\<lambda>acc c. 10 * acc + (c - 48)) (0::nat) (replicate k (48::nat)) = 0"
    by (induction k) simp_all
  then show ?thesis by (simp add: decimal_def)
qed

lemma is_digit_digits: "list_all is_digit (digits n)"
proof (induction n rule: digits.induct)
  case (1 n)
  show ?case
  proof (cases "n < 10")
    case True
    then show ?thesis by (simp add: digits_1 is_digit_def)
  next
    case False
    moreover have "n mod 10 < 10" by simp
    ultimately show ?thesis using 1 by (simp add: digits_step is_digit_def)
  qed
qed

lemma is_digit_zeros: "list_all is_digit (replicate k 48)"
  by (induction k) (simp_all add: is_digit_def)

lemma formatDateKey_parts:
  assumes "m < 12" and "d \<le> 31"
  shows "\<exists>M D. formatDateKey (Local_Date y m d) = String (Number y) @ [45] @ M @ [45] @ D
           \<and> length M = 2 \<and> length D = 2 \<and> list_all is_digit (M @ D)
           \<and> decimal M = m + 1 \<and> decimal D = d"
proof -
  define M where "M = padStart (digits (m + 1)) 2 48"
  define D where "D = padStart (digits d) 2 48"
  have lm: "length M = 2" unfolding M_def using assms by (subst padStart_2) auto
  have ld: "length D = 2" unfolding D_def using assms by (subst padStart_2) auto
  have n: "nat (int m + 1) = m + 1" by simp
  have k: "formatDateKey (Local_Date y m d) = String (Number y) @ [45] @ M @ [45] @ D"
    by (simp add: formatDateKey_def lit_def n M_def D_def)
  have dm: "decimal M = m + 1" by (simp add: M_def padStart_def decimal_zeros decimal_digits)
  have dd: "decimal D = d" by (simp add: D_def padStart_def decimal_zeros decimal_digits)
  have gm: "list_all is_digit M" by (simp add: M_def padStart_def is_digit_digits is_digit_zeros)
  have gd: "list_all is_digit D" by (simp add: D_def padStart_def is_digit_digits is_digit_zeros)
  from k lm ld dm dd gm gd show ?thesis by auto
qed

lemma formatDateKey_shape:
  assumes "1000 \<le> y" and "y \<le> 9999" and "m < 12" and "d \<le> 31"
  shows "is_YYYY_MM_DD (formatDateKey (Local_Date y m d)) (nat y) (m + 1) d"
proof -
  from formatDateKey_parts [OF assms(3,4), of y]
  obtain M D where k: "formatDateKey (Local_Date y m d) = String (Number y) @ [45] @ M @ [45] @ D"
    and l: "length M = 2" "length D = 2" and g: "list_all is_digit (M @ D)"
    and v: "decimal M = m + 1" "decimal D = d"
    by blast
  define Y where "Y = digits (nat y)"
  have y: "String (Number y) = Y" using assms by (simp add: Y_def)
  have ly: "length Y = 4" unfolding Y_def using assms by (intro length_digits_4) auto
  have dy: "decimal Y = nat y" by (simp add: Y_def decimal_digits)
  have gy: "list_all is_digit Y" by (simp add: Y_def is_digit_digits)
  show ?thesis
    unfolding k y is_YYYY_MM_DD_def
    using ly l v dy gy g by (simp add: nth_append)
qed

section \<open>The date keys of the two views\<close>

text \<open>
  Claim C10.  \<open>formatDateKey\<close> of the daily map and \<open>getLocalDateKey\<close> of the dashboard
  give the same string on every Date (for the dashboard, the Date the clock returns), so
  both views use one key for one calendar day.  On every calendar date the key is the
  local year, a hyphen, the month counted from 1 and the day of the month, month and day
  padded with zeros to two digits.  The year is interpolated as it is, so it has its
  four digits for the years 1000 to 9999, where the key is the ten-character
  \<open>YYYY-MM-DD\<close>.
\<close>

theorem date_keys_agree:
  "getLocalDateKey d = formatDateKey d
   \<and> (m < 12 \<and> dd \<le> 31
        \<longrightarrow> (\<exists>M D. formatDateKey (Local_Date y m dd) = String (Number y) @ [45] @ M @ [45] @ D
               \<and> length M = 2 \<and> length D = 2 \<and> list_all is_digit (M @ D)
               \<and> decimal M = m + 1 \<and> decimal D = dd))
   \<and> (1000 \<le> y \<and> y \<le> 9999 \<and> m < 12 \<and> dd \<le> 31
        \<longrightarrow> is_YYYY_MM_DD (getLocalDateKey (Local_Date y m dd)) (nat y) (m + 1) dd
            \<and> is_YYYY_MM_DD (formatDateKey (Local_Date y m dd)) (nat y) (m + 1) dd)"
proof -
  have eq: "getLocalDateKey x = formatDateKey x" for x
    by (simp add: getLocalDateKey_def formatDateKey_def)
  have shape: "is_YYYY_MM_DD (formatDateKey (Local_Date y m dd)) (nat y) (m + 1) dd"
    if "1000 \<le> y" "y \<le> 9999" "m < 12" "dd \<le> 31"
    using that by (rule formatDateKey_shape)
  have parts: "\<exists>M D. formatDateKey (Local_Date y m dd) = String (Number y) @ [45] @ M @ [45] @ D
               \<and> length M = 2 \<and> length D = 2 \<and> list_all is_digit (M @ D)
               \<and> decimal M = m + 1 \<and> decimal D = dd"
    if "m < 12" "dd \<le> 31"
    using that by (rule formatDateKey_parts)
  from shape parts show ?thesis unfolding eq by blast
qed

theorem date_keys_agree_witness:
  "getLocalDateKey (Local_Date 2024 0 10) = lit ''2024-01-10''
   \<and> formatDateKey (Local_Date 2024 0 10) = lit ''2024-01-10''
   \<and> is_YYYY_MM_DD (lit ''2024-01-10'') 2024 1 10"
proof -
  have k: "formatDateKey (Local_Date 2024 0 10) = lit ''2024-01-10''"
    by (simp add: formatDateKey_def padStart_def digits_step digits_1 lit_def)
  show ?thesis
    using date_keys_agree [of "Local_Date 2024 0 10" 0 10 2024] by (simp add: k)
qed

section \<open>The row mappings\<close>

lemma mapProfessional_segments:
  assumes "split_str (js_or (pr_specialty p) []) (lit '' | '') = seg0 # rest"
  shows "d_specialty (mapProfessional p) = trim (if seg0 = [] then lit ''Geral'' else seg0)"
    and "d_sector (mapProfessional p) = trim (case rest of [] \<Rightarrow> [] | seg1 # segs \<Rightarrow> seg1)"
  using assms
  by (simp_all add: mapProfessional_def Let_def at_index_def js_or_def trim_def split: list.splits)

lemma mapDoctor_sector: "d_sector (mapDoctor p) = d_sector (mapProfessional p)"
  by (simp add: mapDoctor_def mapProfessional_def Let_def)

lemma trim_Nil: "trim [] = []"
  by (simp add: trim_def)

lemma fetchProfessionals_store:
  "db_profiles (snd (fetchProfessionals t (ui, db))) = db_profiles db"
  by (simp add: fetchProfessionals_def select_profiles_def issue_def Let_def split_beta
        split: reply.splits option.splits)

text \<open>
  Claim C3, as stated, fails: the mapped specialty is not the first segment on every
  row.  \<open>handleSave\<close> requires a name only; for a professional typed without a
  specialty it stores \<open>" | "\<close> followed by the sector, whose first segment is empty,
  and the mapping gives that row the specialty \<open>Geral\<close>.  A row stored with blanks
  around the delimiter has the segments \<open>"Cardio "\<close> and \<open>" Setor"\<close> and is mapped
  to \<open>Cardio\<close> and \<open>Setor\<close>.
\<close>

theorem specialty_differs_from_first_segment:
  "map pr_specialty
     (db_profiles (snd (handleSave (lit ''d3'') Delivered Delivered
                          (no_specialty_page, empty_store))))
     = [Some (lit '' | '' @ CDU)]
   \<and> split_str (lit '' | '' @ CDU) (lit '' | '') = [[], CDU]
   \<and> map d_specialty
        (map mapProfessional
           (db_profiles (snd (handleSave (lit ''d3'') Delivered Delivered
                                (no_specialty_page, empty_store)))))
       = [lit ''Geral'']
   \<and> lit ''Geral'' \<noteq> []
   \<and> split_str (lit ''Cardio  |  Setor'') (lit '' | '') = [lit ''Cardio '', lit '' Setor'']
   \<and> d_specialty (mapProfessional padded_row) = lit ''Cardio''
   \<and> d_sector (mapProfessional padded_row) = lit ''Setor''
   \<and> lit ''Cardio'' \<noteq> lit ''Cardio '' \<and> lit ''Setor'' \<noteq> lit '' Setor''"
proof -
  have f: "prof_formData no_specialty_page = no_specialty_form"
    "editingProfessional no_specialty_page = None"
    by (simp_all add: no_specialty_page_def fresh_professionals_page_def)
  have n: "pf_name no_specialty_form \<noteq> []"
    by (simp add: no_specialty_form_def lit_def)
  have c: "combinedSpecialty no_specialty_form = lit '' | '' @ CDU"
    by (simp add: combinedSpecialty_def no_specialty_form_def)
  have stored: "map pr_specialty
     (db_profiles (snd (handleSave (lit ''d3'') Delivered Delivered
                          (no_specialty_page, empty_store))))
     = [Some (lit '' | '' @ CDU)]"
    using n
    by (simp add: handleSave_def f c Let_def split_beta insert_profile_def issue_def
          empty_store_def fetchProfessionals_store)
  then obtain row where row: "db_profiles (snd (handleSave (lit ''d3'') Delivered Delivered
                          (no_specialty_page, empty_store))) = [row]"
    and sp: "pr_specialty row = Some (lit '' | '' @ CDU)"
    by auto
  have s1: "split_str (lit '' | '' @ CDU) (lit '' | '') = [[], CDU]"
    by (simp add: split_str_def CDU_def lit_def starts_with_def)
  have j: "js_or (Some (lit '' | '' @ CDU)) [] = lit '' | '' @ CDU"
    by (simp add: js_or_def lit_def)
  have parts: "split_str (js_or (pr_specialty row) []) (lit '' | '') = [[], CDU]"
    by (simp only: sp j s1)
  have tg: "trim (lit ''Geral'') = lit ''Geral''"
    by (simp add: trim_def lit_def is_white_space_def)
  have g: "d_specialty (mapProfessional row) = lit ''Geral''"
    using mapProfessional_segments(1) [OF parts] by (simp add: tg)
  have s2: "split_str (lit ''Cardio  |  Setor'') (lit '' | '')
              = [lit ''Cardio '', lit '' Setor'']"
    by (simp add: split_str_def lit_def starts_with_def)
  have p: "d_specialty (mapProfessional padded_row) = lit ''Cardio''"
    "d_sector (mapProfessional padded_row) = lit ''Setor''"
    by (simp_all add: mapProfessional_def Let_def padded_row_def blank_profile_def js_or_def
          split_str_def at_index_def trim_def lit_def starts_with_def is_white_space_def)
  have d: "lit ''Geral'' \<noteq> []" "lit ''Cardio'' \<noteq> lit ''Cardio ''"
    "lit ''Setor'' \<noteq> lit '' Setor''"
    by (simp_all add: lit_def)
  from stored s1 g s2 p d show ?thesis by (simp add: row)
qed

text \<open>
  Claim C3, amended.  The professionals mapping splits the stored specialty (the empty
  string when the column is null) on \<open>" | "\<close>: the specialty of the mapped entity is the
  first segment trimmed, or \<open>Geral\<close> when the first segment is empty, and its sector is
  the second segment trimmed, or empty when there is none.  A row whose specialty
  contains no delimiter maps to the empty sector; the row with specialty
  \<open>Cardiologia | 8o Andar ( CLINICA MEDICA / CARDIOLOGIA )\<close> maps to the specialty
  \<open>Cardiologia\<close> and to that sector; and what \<open>handleSave\<close> stores for a non-empty
  specialty and a sector without the bar is mapped back to the two, trimmed.
\<close>

theorem specialty_sector_split:
  "(\<exists>seg0 rest.
       split_str (js_or (pr_specialty p) []) (lit '' | '') = seg0 # rest
       \<and> d_specialty (mapProfessional p) = trim (if seg0 = [] then lit ''Geral'' else seg0)
       \<and> d_sector (mapProfessional p) = trim (case rest of [] \<Rightarrow> [] | seg1 # segs \<Rightarrow> seg1))
   \<and> (\<not> includes_str (js_or (pr_specialty p) []) (lit '' | '')
        \<longrightarrow> d_sector (mapProfessional p) = [])
   \<and> (pr_specialty p = Some (lit ''Cardiologia | '' @ floor_8)
        \<longrightarrow> d_specialty (mapProfessional p) = lit ''Cardiologia''
            \<and> d_sector (mapProfessional p) = floor_8)
   \<and> (124 \<notin> set (pf_specialty fd) \<and> 124 \<notin> set (pf_sector fd) \<and> pf_specialty fd \<noteq> []
        \<and> pr_specialty p = Some (combinedSpecialty fd)
        \<longrightarrow> d_specialty (mapProfessional p) = trim (pf_specialty fd)
            \<and> d_sector (mapProfessional p) = trim (pf_sector fd))"
proof (intro conjI impI)
  obtain seg0 rest where s: "split_str (js_or (pr_specialty p) []) (lit '' | '') = seg0 # rest"
    by (rule split_str_cases)
  from mapProfessional_segments [OF s] s
  show "\<exists>seg0 rest.
       split_str (js_or (pr_specialty p) []) (lit '' | '') = seg0 # rest
       \<and> d_specialty (mapProfessional p) = trim (if seg0 = [] then lit ''Geral'' else seg0)
       \<and> d_sector (mapProfessional p) = trim (case rest of [] \<Rightarrow> [] | seg1 # segs \<Rightarrow> seg1)"
    by blast
next
  assume "\<not> includes_str (js_or (pr_specialty p) []) (lit '' | '')"
  then have "split_str (js_or (pr_specialty p) []) (lit '' | '') = [js_or (pr_specialty p) []]"
    by (rule split_str_absent)
  from mapProfessional_segments(2) [OF this] show "d_sector (mapProfessional p) = []"
    by (simp add: trim_Nil)
next
  assume e: "pr_specialty p = Some (lit ''Cardiologia | '' @ floor_8)"
  show "d_specialty (mapProfessional p) = lit ''Cardiologia''"
    by (simp add: e mapProfessional_def Let_def floor_8_def lit_def split_str_def starts_with_def
          js_or_def at_index_def trim_def is_white_space_def)
  show "d_sector (mapProfessional p) = floor_8"
    by (simp add: e mapProfessional_def Let_def floor_8_def lit_def split_str_def starts_with_def
          js_or_def at_index_def trim_def is_white_space_def)
next
  assume h: "124 \<notin> set (pf_specialty fd) \<and> 124 \<notin> set (pf_sector fd) \<and> pf_specialty fd \<noteq> []
             \<and> pr_specialty p = Some (combinedSpecialty fd)"
  have ne: "pf_specialty fd @ lit '' | '' @ pf_sector fd \<noteq> []"
    by (simp add: lit_def)
  have "split_str (js_or (pr_specialty p) []) (lit '' | '') = [pf_specialty fd, pf_sector fd]"
    using h ne by (simp add: combinedSpecialty_def js_or_def split_str_two)
  from mapProfessional_segments [OF this] h
  show "d_specialty (mapProfessional p) = trim (pf_specialty fd)"
    and "d_sector (mapProfessional p) = trim (pf_sector fd)"
    by simp_all
qed

theorem specialty_sector_split_witness:
  "d_specialty (mapProfessional cardiologist) = lit ''Cardiologia''
   \<and> d_sector (mapProfessional cardiologist) = floor_8
   \<and> \<not> includes_str (js_or (pr_specialty administrator) []) (lit '' | '')
   \<and> d_sector (mapProfessional administrator) = []
   \<and> d_specialty (mapProfessional radiologist) = lit ''Radiologia''
   \<and> d_sector (mapProfessional radiologist) = CDU"
proof -
  let ?fd = "\<lparr>pf_name = lit ''Ana Souza'', pf_specialty = lit ''Radiologia'', pf_phone = [],
              pf_gender = lit ''female'', pf_sector = CDU, pf_status = lit ''vacation''\<rparr>"
  have a: "pr_specialty cardiologist = Some (lit ''Cardiologia | '' @ floor_8)"
    by (simp add: cardiologist_def blank_profile_def)
  have b: "\<not> includes_str (js_or (pr_specialty administrator) []) (lit '' | '')"
    by (simp add: administrator_def blank_profile_def CDU_def js_or_def lit_def starts_with_def)
  have c: "124 \<notin> set (pf_specialty ?fd) \<and> 124 \<notin> set (pf_sector ?fd) \<and> pf_specialty ?fd \<noteq> []
           \<and> pr_specialty radiologist = Some (combinedSpecialty ?fd)"
    by (simp add: radiologist_def blank_profile_def combinedSpecialty_def CDU_def lit_def)
  have t: "trim (lit ''Radiologia'') = lit ''Radiologia''" "trim CDU = CDU"
    by (simp_all add: trim_def CDU_def lit_def is_white_space_def)
  show ?thesis
    using specialty_sector_split [of cardiologist ?fd]
      specialty_sector_split [of administrator ?fd]
      specialty_sector_split [of radiologist ?fd] a b c t
    by simp
qed

text \<open>
  Claim C7.  A row whose status is missing (null or the empty string) is mapped to the
  status \<open>active\<close> by the two doctor mappings (professionals page and daily map) and to
  \<open>offline\<close> by the users mapping; a row with a status keeps it.
\<close>

theorem status_defaults:
  "((pr_status p = None \<or> pr_status p = Some [])
      \<longrightarrow> d_status (mapProfessional p) = lit ''active''
          \<and> d_status (mapDoctor p) = lit ''active''
          \<and> uu_status (mapUser p) = lit ''offline'')
   \<and> (pr_status p = Some s \<and> s \<noteq> []
      \<longrightarrow> d_status (mapProfessional p) = s \<and> d_status (mapDoctor p) = s
          \<and> uu_status (mapUser p) = s)"
  by (auto simp: mapProfessional_def mapDoctor_def mapUser_def js_or_def Let_def)

theorem status_defaults_witness:
  "d_status (mapProfessional cardiologist) = lit ''active''
   \<and> d_status (mapDoctor cardiologist) = lit ''active''
   \<and> uu_status (mapUser cardiologist) = lit ''offline''
   \<and> d_status (mapProfessional radiologist) = lit ''vacation''
   \<and> d_status (mapDoctor radiologist) = lit ''vacation''
   \<and> uu_status (mapUser radiologist) = lit ''vacation''"
proof -
  have a: "pr_status cardiologist = None"
    by (simp add: cardiologist_def blank_profile_def)
  have b: "pr_status radiologist = Some (lit ''vacation'') \<and> lit ''vacation'' \<noteq> []"
    by (simp add: radiologist_def blank_profile_def lit_def)
  show ?thesis
    using status_defaults [of cardiologist "[]"] status_defaults [of radiologist "lit ''vacation''"]
      a b
    by simp
qed

section \<open>The selected sector\<close>

lemma FLOOR_OPTIONS_nonempty: "[] \<notin> set FLOOR_OPTIONS"
  by (simp add: FLOOR_OPTIONS_def lit_def)

lemma default_floor_is_option:
  "lit ''9'' @ [186] @ lit '' Andar ( OFTALMOLOGIA )'' \<in> set FLOOR_OPTIONS"
  by (simp add: FLOOR_OPTIONS_def)

text \<open>
  Claim C9.  With nothing stored under \<open>mediportal_selected_floor\<close> the provider starts
  with the sector \<open>9o Andar ( OFTALMOLOGIA )\<close>, which is not empty.  After
  \<open>setSelectedFloor\<close> with a label \<open>L\<close> (a non-empty string, as every sector label is) the
  selected sector is \<open>L\<close>, and a provider mounted again on the storage left behind (a
  reload) starts with \<open>L\<close>.
\<close>

theorem selected_floor_default_and_persistence:
  "(getItem ls (lit ''mediportal_selected_floor'') = None
      \<longrightarrow> selectedFloor (AuthProvider ls) = lit ''9'' @ [186] @ lit '' Andar ( OFTALMOLOGIA )''
          \<and> selectedFloor (AuthProvider ls) \<noteq> [])
   \<and> (L \<noteq> []
      \<longrightarrow> selectedFloor (fst (setSelectedFloor L (ctx, ls))) = L
          \<and> selectedFloor (AuthProvider (snd (setSelectedFloor L (ctx, ls)))) = L)"
  by (simp add: AuthProvider_def setSelectedFloor_def getItem_def setItem_def js_or_def lit_def)

theorem selected_floor_default_and_persistence_witness:
  "selectedFloor (AuthProvider Map.empty) = lit ''9'' @ [186] @ lit '' Andar ( OFTALMOLOGIA )''
   \<and> selectedFloor (fst (setSelectedFloor CDU (AuthProvider Map.empty, Map.empty))) = CDU
   \<and> selectedFloor (AuthProvider (snd (setSelectedFloor CDU (AuthProvider Map.empty, Map.empty))))
       = CDU"
proof -
  have a: "getItem Map.empty (lit ''mediportal_selected_floor'') = None"
    by (simp add: getItem_def)
  have b: "CDU \<noteq> []"
    by (simp add: CDU_def lit_def)
  show ?thesis
    using selected_floor_default_and_persistence [of Map.empty CDU "AuthProvider Map.empty"] a b
    by simp
qed

section \<open>Self-protection on the users page\<close>

lemma toggleAdmin_self:
  "toggleAdmin (Some u) (usr_id u) currentStatus t (ui, db)
     = (alert (lit ''Voc'' @ [234] @ lit '' n'' @ [227] @ lit ''o pode alterar seu pr''
                 @ [243] @ lit ''prio status de administrador por aqui.'') ui, db)"
  by (simp add: toggleAdmin_def)

lemma handleDeleteUser_self:
  "handleDeleteUser (Some u) (usr_id u) confirmed t_delete t_fetch (ui, db)
     = (alert (lit ''Voc'' @ [234] @ lit '' n'' @ [227] @ lit ''o pode excluir seu pr''
                 @ [243] @ lit ''prio usu'' @ [225] @ lit ''rio.'') ui, db)"
  by (simp add: handleDeleteUser_def)

lemma self_rejected_before_any_request:
  "requests (snd (toggleAdmin (Some u) (usr_id u) currentStatus t (ui, db))) = requests db"
  "requests (snd (handleDeleteUser (Some u) (usr_id u) confirmed t_delete t_fetch (ui, db)))
     = requests db"
  by (simp_all add: toggleAdmin_self handleDeleteUser_self)

text \<open>
  The delete button of the professionals page is offered to an administrator on every
  card; \<open>handleDelete\<close> does not know the current user, so an administrator who is a
  doctor removes the own profile there.
\<close>

lemma professionals_delete_has_no_guard:
  "db_profiles (snd (handleDelete (usr_id u) True Delivered t_fetch (ui, db)))
     = filter (\<lambda>r. pr_id r \<noteq> usr_id u) (db_profiles db)"
  by (simp add: handleDelete_def delete_profiles_def issue_def fetchProfessionals_def
        select_profiles_def Let_def split_beta split: reply.splits option.splits)

lemma users_page_loaded:
  "fetchUsers Delivered (fresh_users_page, staffed_store)
     = (fresh_users_page\<lparr>users := map mapUser [administrator, cardiologist, radiologist],
                           loading := False\<rparr>,
        staffed_store\<lparr>requests := [(Select, Profiles)]\<rparr>)"
  by (simp add: fetchUsers_def select_profiles_def answer_def issue_def staffed_store_def
        empty_store_def fresh_users_page_def)

text \<open>
  Claim C2.  The administrator \<open>u1\<close> opens the edit form on the own card, clears the
  administrator checkbox and saves.  \<open>toggleAdmin\<close> and \<open>handleDeleteUser\<close> refuse the own
  identifier before any request (lemmas above), but \<open>handleSaveUser\<close> compares nothing
  with the current user: the update request is sent and the own profile is stored with
  \<open>is_admin = false\<close>, without any alert.
\<close>

theorem self_demotion_through_edit_form:
  "usr_id me = pr_id administrator
   \<and> pr_is_admin administrator = Some True
   \<and> map pr_is_admin
        (filter (\<lambda>r. pr_id r = usr_id me)
           (db_profiles (snd (handleSaveUser (\<lambda>s. s) (lit ''uuid'') Delivered Delivered
              (onChange_isAdmin False
                 (openEditModal (mapUser administrator)
                    (fst (fetchUsers Delivered (fresh_users_page, staffed_store)))),
               snd (fetchUsers Delivered (fresh_users_page, staffed_store)))))))
       = [Some False]
   \<and> requests (snd (handleSaveUser (\<lambda>s. s) (lit ''uuid'') Delivered Delivered
              (onChange_isAdmin False
                 (openEditModal (mapUser administrator)
                    (fst (fetchUsers Delivered (fresh_users_page, staffed_store)))),
               snd (fetchUsers Delivered (fresh_users_page, staffed_store)))))
       = [(Select, Profiles), (Update, Profiles), (Select, Profiles)]
   \<and> alerts (fst (handleSaveUser (\<lambda>s. s) (lit ''uuid'') Delivered Delivered
              (onChange_isAdmin False
                 (openEditModal (mapUser administrator)
                    (fst (fetchUsers Delivered (fresh_users_page, staffed_store)))),
               snd (fetchUsers Delivered (fresh_users_page, staffed_store)))))
       = []"
proof -
  have n: "lit ''Ana'' \<noteq> []" "CDU \<noteq> []" "lit ''u1'' \<noteq> lit ''d1''" "lit ''u1'' \<noteq> lit ''d2''"
    by (simp_all add: lit_def CDU_def)
  have form: "formData (onChange_isAdmin False (openEditModal (mapUser administrator) ui))
      = \<lparr>f_name = lit ''Ana'', f_phone = [], f_role = Some (lit ''reception''),
         f_roleDisplay = CDU, f_email = [], f_gender = lit ''male'', f_isAdmin = False\<rparr>" for ui
    using n by (simp add: onChange_isAdmin_def openEditModal_def mapUser_def administrator_def
          blank_profile_def js_or_def truthy_def)
  have ed: "editingUser (onChange_isAdmin False (openEditModal (mapUser administrator) ui))
      = Some (mapUser administrator)" for ui
    by (simp add: onChange_isAdmin_def openEditModal_def)
  have al: "alerts (onChange_isAdmin False (openEditModal (mapUser administrator) ui)) = alerts ui"
    for ui
    by (simp add: onChange_isAdmin_def openEditModal_def)
  have id: "uu_id (mapUser administrator) = lit ''u1''"
    by (simp add: mapUser_def administrator_def blank_profile_def)
  have ids: "pr_id administrator = lit ''u1''" "pr_id cardiologist = lit ''d1''"
    "pr_id radiologist = lit ''d2''" "pr_is_admin administrator = Some True"
    by (simp_all add: administrator_def cardiologist_def radiologist_def blank_profile_def)
  show ?thesis
    unfolding users_page_loaded
    using n
    by (simp add: handleSaveUser_def Let_def form ed al id ids me_def update_profiles_def
          fetchUsers_def select_profiles_def answer_def issue_def staffed_store_def
          empty_store_def showToast_def fresh_users_page_def)
qed

section \<open>Failing fetches\<close>

text \<open>
  Claim C4, as stated, fails on the daily map: the request for the allocations is sent
  and fails, the cached allocations stay, and the only trace is a line on the developer
  console; no alert is shown to the user.
\<close>

theorem silent_allocation_fetch_failure:
  "alerts (fst (fetchAllocations None (Failed (lit ''Failed to fetch''))
                  (one_room_map, one_room_store))) = []
   \<and> console_errors (fst (fetchAllocations None (Failed (lit ''Failed to fetch''))
                            (one_room_map, one_room_store)))
       = [lit ''Error fetching allocations:'']
   \<and> requests (snd (fetchAllocations None (Failed (lit ''Failed to fetch''))
                      (one_room_map, one_room_store)))
       = [(Select, Room_allocations)]"
  by (simp add: fetchAllocations_def Let_def select_allocations_def answer_def issue_def
        console_error_def one_room_map_def one_room_store_def staffed_store_def
        empty_store_def fresh_map_def sala_1_def)

text \<open>
  Claim C4, amended.  When the request of a fetch fails, the cached collection is
  retained unchanged by every fetch of the users page, the professionals page and the
  daily map.  The failure is shown to the user as a toast by \<open>fetchUsers\<close> and
  \<open>fetchProfessionals\<close>; \<open>fetchRooms\<close>, \<open>fetchDoctors\<close> and \<open>fetchAllocations\<close> of the
  daily map write it to the console and show no alert.  (\<open>fetchAllocations\<close> sends a
  request only when there is a room in view.)
\<close>

theorem fetch_failure_keeps_cache:
  "users (fst (fetchUsers (Failed e) (uui, db))) = users uui
   \<and> toastMessage (fst (fetchUsers (Failed e) (uui, db)))
       = Some (lit ''Erro ao carregar usu'' @ [225] @ lit ''rios.'')
   \<and> professionals (fst (fetchProfessionals (Failed e) (pui, db))) = professionals pui
   \<and> toastMessage (fst (fetchProfessionals (Failed e) (pui, db)))
       = Some (lit ''Erro ao carregar profissionais: '' @ js_or (Some e) (lit ''Erro desconhecido''))
   \<and> rooms (fst (fetchRooms ctx (Failed e) (ui, db))) = rooms ui
   \<and> alerts (fst (fetchRooms ctx (Failed e) (ui, db))) = alerts ui
   \<and> console_errors (fst (fetchRooms ctx (Failed e) (ui, db)))
       = console_errors ui @ [lit ''Error fetching rooms:'']
   \<and> doctors (fst (fetchDoctors (Failed e) (ui, db))) = doctors ui
   \<and> alerts (fst (fetchDoctors (Failed e) (ui, db))) = alerts ui
   \<and> console_errors (fst (fetchDoctors (Failed e) (ui, db)))
       = console_errors ui @ [lit ''Error fetching doctors:'']
   \<and> (rooms ui \<noteq> []
        \<longrightarrow> allocations (fst (fetchAllocations None (Failed e) (ui, db))) = allocations ui
            \<and> alerts (fst (fetchAllocations None (Failed e) (ui, db))) = alerts ui
            \<and> console_errors (fst (fetchAllocations None (Failed e) (ui, db)))
                = console_errors ui @ [lit ''Error fetching allocations:''])"
proof (intro conjI impI)
  show "users (fst (fetchUsers (Failed e) (uui, db))) = users uui"
    and "toastMessage (fst (fetchUsers (Failed e) (uui, db)))
       = Some (lit ''Erro ao carregar usu'' @ [225] @ lit ''rios.'')"
    by (simp_all add: fetchUsers_def select_profiles_def answer_def showToast_def
          console_error_def)
  show "professionals (fst (fetchProfessionals (Failed e) (pui, db))) = professionals pui"
    and "toastMessage (fst (fetchProfessionals (Failed e) (pui, db)))
       = Some (lit ''Erro ao carregar profissionais: '' @ js_or (Some e) (lit ''Erro desconhecido''))"
    by (simp_all add: fetchProfessionals_def select_profiles_def answer_def showToast_def
          console_error_def)
  show "rooms (fst (fetchRooms ctx (Failed e) (ui, db))) = rooms ui"
    and "alerts (fst (fetchRooms ctx (Failed e) (ui, db))) = alerts ui"
    and "console_errors (fst (fetchRooms ctx (Failed e) (ui, db)))
       = console_errors ui @ [lit ''Error fetching rooms:'']"
    by (simp_all add: fetchRooms_def select_rooms_def answer_def console_error_def)
  show "doctors (fst (fetchDoctors (Failed e) (ui, db))) = doctors ui"
    and "alerts (fst (fetchDoctors (Failed e) (ui, db))) = alerts ui"
    and "console_errors (fst (fetchDoctors (Failed e) (ui, db)))
       = console_errors ui @ [lit ''Error fetching doctors:'']"
    by (simp_all add: fetchDoctors_def select_profiles_def answer_def console_error_def)
next
  assume r: "rooms ui \<noteq> []"
  then show "allocations (fst (fetchAllocations None (Failed e) (ui, db))) = allocations ui"
    and "alerts (fst (fetchAllocations None (Failed e) (ui, db))) = alerts ui"
    and "console_errors (fst (fetchAllocations None (Failed e) (ui, db)))
                = console_errors ui @ [lit ''Error fetching allocations:'']"
    by (simp_all add: fetchAllocations_def Let_def select_allocations_def answer_def
          console_error_def)
qed

theorem fetch_failure_keeps_cache_witness:
  "rooms one_room_map \<noteq> []
   \<and> users (fst (fetchUsers (Failed (lit ''Failed to fetch''))
                  (fst (fetchUsers Delivered (fresh_users_page, staffed_store)), staffed_store)))
       = map mapUser [administrator, cardiologist, radiologist]
   \<and> allocations (fst (fetchAllocations None (Failed (lit ''Failed to fetch''))
                        (one_room_map, one_room_store))) = []
   \<and> alerts (fst (fetchRooms at_CDU (Failed (lit ''Failed to fetch''))
                   (one_room_map, one_room_store))) = []
   \<and> rooms (fst (fetchRooms at_CDU (Failed (lit ''Failed to fetch''))
                  (one_room_map, one_room_store))) = [sala_1]"
proof -
  have r: "rooms one_room_map \<noteq> []" "rooms one_room_map = [sala_1]"
    "alerts one_room_map = []" "allocations one_room_map = []"
    by (simp_all add: one_room_map_def fresh_map_def)
  have u: "users (fst (fetchUsers Delivered (fresh_users_page, staffed_store)))
      = map mapUser [administrator, cardiologist, radiologist]"
    by (simp add: users_page_loaded)
  show ?thesis
    using fetch_failure_keeps_cache [of "lit ''Failed to fetch''"
        "fst (fetchUsers Delivered (fresh_users_page, staffed_store))" staffed_store
        fresh_professionals_page at_CDU one_room_map]
      fetch_failure_keeps_cache [of "lit ''Failed to fetch''"
        "fst (fetchUsers Delivered (fresh_users_page, staffed_store))" one_room_store
        fresh_professionals_page at_CDU one_room_map]
      r u
    by simp
qed

section \<open>The allocation table\<close>

lemma fetchAllocations_store:
  "db_room_allocations (snd (fetchAllocations p t (ui, db))) = db_room_allocations db"
  "db_rooms (snd (fetchAllocations p t (ui, db))) = db_rooms db"
  "db_profiles (snd (fetchAllocations p t (ui, db))) = db_profiles db"
  by (simp_all add: fetchAllocations_def Let_def select_allocations_def answer_def issue_def
        split: transport.splits)

lemma fetchAllocations_alerts: "alerts (fst (fetchAllocations p t (ui, db))) = alerts ui"
  by (simp add: fetchAllocations_def Let_def select_allocations_def answer_def
        console_error_def split: transport.splits option.splits)

lemma formatDateKey_example: "formatDateKey (Local_Date 2024 0 10) = lit ''2024-01-10''"
  by (simp add: formatDateKey_def padStart_def digits_step digits_1 lit_def)

lemma delete_allocations_delivered:
  "delete_allocations Delivered r d s db
     = (None, issue Delete Room_allocations
                (db\<lparr>db_room_allocations :=
                      filter (\<lambda>a. slot_of a \<noteq> (r, d, s)) (db_room_allocations db)\<rparr>))"
  by (simp add: delete_allocations_def slot_of_def)

lemma filter_other_slots_absent:
  "rows_of_slot k rows = [] \<Longrightarrow> filter (\<lambda>a. slot_of a \<noteq> k) rows = rows"
  by (induction rows) (auto simp: rows_of_slot_def split: if_splits)

lemma filter_other_slots_unique:
  "distinct (map slot_of rows) \<Longrightarrow> a \<in> set rows
     \<Longrightarrow> filter (\<lambda>b. slot_of b \<noteq> slot_of a) rows = remove1 a rows"
proof (induction rows)
  case Nil
  then show ?case by simp
next
  case (Cons b rows)
  show ?case
  proof (cases "b = a")
    case True
    with Cons.prems have "slot_of a \<notin> slot_of ` set rows" by simp
    then have "\<forall>c \<in> set rows. slot_of c \<noteq> slot_of a" by (metis imageI)
    then have "filter (\<lambda>c. slot_of c \<noteq> slot_of a) rows = rows" by (simp add: filter_id_conv)
    with True show ?thesis by simp
  next
    case False
    with Cons.prems have "a \<in> set rows" and "slot_of b \<noteq> slot_of a" by auto
    with Cons False show ?thesis by simp
  qed
qed

lemma handleClearSlot_delivered:
  assumes "selectedSlot ui = Some (r, s)"
  shows "db_room_allocations (snd (handleClearSlot Delivered t_fetch (ui, db)))
           = filter (\<lambda>a. slot_of a \<noteq> (r, formatDateKey (currentDate ui), s))
               (db_room_allocations db)"
    and "db_rooms (snd (handleClearSlot Delivered t_fetch (ui, db))) = db_rooms db"
    and "db_profiles (snd (handleClearSlot Delivered t_fetch (ui, db))) = db_profiles db"
    and "alerts (fst (handleClearSlot Delivered t_fetch (ui, db))) = alerts ui"
  using assms
  by (simp_all add: handleClearSlot_def Let_def delete_allocations_delivered issue_def
        split_beta fetchAllocations_store fetchAllocations_alerts)

text \<open>
  Claim C5.  \<open>handleClearSlot\<close> with no slot selected does nothing.  With a slot selected
  and the store reachable: when the table holds no row for the slot (room, date in view,
  shift), the tables are left as they are and no error is shown; when it holds the row
  of the slot, exactly that row is removed and every other row stays.
\<close>

theorem clear_slot:
  "(selectedSlot ui = None \<longrightarrow> handleClearSlot t_delete t_fetch (ui, db) = (ui, db))
   \<and> (selectedSlot ui = Some (r, s)
        \<and> rows_of_slot (r, formatDateKey (currentDate ui), s) (db_room_allocations db) = []
      \<longrightarrow> db_room_allocations (snd (handleClearSlot Delivered t_fetch (ui, db)))
             = db_room_allocations db
          \<and> db_rooms (snd (handleClearSlot Delivered t_fetch (ui, db))) = db_rooms db
          \<and> db_profiles (snd (handleClearSlot Delivered t_fetch (ui, db))) = db_profiles db
          \<and> alerts (fst (handleClearSlot Delivered t_fetch (ui, db))) = alerts ui)
   \<and> (selectedSlot ui = Some (r, s) \<and> a \<in> set (db_room_allocations db)
        \<and> slot_of a = (r, formatDateKey (currentDate ui), s)
        \<and> unique_slots (db_room_allocations db)
      \<longrightarrow> db_room_allocations (snd (handleClearSlot Delivered t_fetch (ui, db)))
             = remove1 a (db_room_allocations db)
          \<and> a \<notin> set (db_room_allocations (snd (handleClearSlot Delivered t_fetch (ui, db))))
          \<and> db_rooms (snd (handleClearSlot Delivered t_fetch (ui, db))) = db_rooms db
          \<and> db_profiles (snd (handleClearSlot Delivered t_fetch (ui, db))) = db_profiles db
          \<and> alerts (fst (handleClearSlot Delivered t_fetch (ui, db))) = alerts ui)"
proof (intro conjI impI)
  assume "selectedSlot ui = None"
  then show "handleClearSlot t_delete t_fetch (ui, db) = (ui, db)"
    by (simp add: handleClearSlot_def)
next
  assume h: "selectedSlot ui = Some (r, s)
        \<and> rows_of_slot (r, formatDateKey (currentDate ui), s) (db_room_allocations db) = []"
  then have sel: "selectedSlot ui = Some (r, s)" by simp
  from h show "db_room_allocations (snd (handleClearSlot Delivered t_fetch (ui, db)))
             = db_room_allocations db"
    by (simp add: handleClearSlot_delivered(1) [OF sel] filter_other_slots_absent)
  show "db_rooms (snd (handleClearSlot Delivered t_fetch (ui, db))) = db_rooms db"
    and "db_profiles (snd (handleClearSlot Delivered t_fetch (ui, db))) = db_profiles db"
    and "alerts (fst (handleClearSlot Delivered t_fetch (ui, db))) = alerts ui"
    by (rule handleClearSlot_delivered [OF sel])+
next
  assume h: "selectedSlot ui = Some (r, s) \<and> a \<in> set (db_room_allocations db)
        \<and> slot_of a = (r, formatDateKey (currentDate ui), s)
        \<and> unique_slots (db_room_allocations db)"
  then have sel: "selectedSlot ui = Some (r, s)" by simp
  from h have "filter (\<lambda>b. slot_of b \<noteq> slot_of a) (db_room_allocations db)
      = remove1 a (db_room_allocations db)"
    by (intro filter_other_slots_unique) (simp_all add: unique_slots_def)
  with h show eq: "db_room_allocations (snd (handleClearSlot Delivered t_fetch (ui, db)))
             = remove1 a (db_room_allocations db)"
    by (simp add: handleClearSlot_delivered(1) [OF sel])
  from h show "a \<notin> set (db_room_allocations (snd (handleClearSlot Delivered t_fetch (ui, db))))"
    by (simp add: handleClearSlot_delivered(1) [OF sel])
  show "db_rooms (snd (handleClearSlot Delivered t_fetch (ui, db))) = db_rooms db"
    and "db_profiles (snd (handleClearSlot Delivered t_fetch (ui, db))) = db_profiles db"
    and "alerts (fst (handleClearSlot Delivered t_fetch (ui, db))) = alerts ui"
    by (rule handleClearSlot_delivered [OF sel])+
qed

theorem clear_slot_witness:
  "handleClearSlot Delivered Delivered (one_room_map, booked_store) = (one_room_map, booked_store)
   \<and> db_room_allocations (snd (handleClearSlot Delivered Delivered (slot_open_map, one_room_store)))
       = []
   \<and> alerts (fst (handleClearSlot Delivered Delivered (slot_open_map, one_room_store))) = []
   \<and> db_room_allocations (snd (handleClearSlot Delivered Delivered (slot_open_map, booked_store)))
       = []
   \<and> alerts (fst (handleClearSlot Delivered Delivered (slot_open_map, booked_store))) = []"
proof -
  have s: "selectedSlot one_room_map = None" "selectedSlot slot_open_map = Some (0, morning)"
    "currentDate slot_open_map = Local_Date 2024 0 10" "alerts slot_open_map = []"
    by (simp_all add: slot_open_map_def one_room_map_def fresh_map_def)
  have d: "db_room_allocations one_room_store = []" "db_room_allocations booked_store = [booking]"
    by (simp_all add: booked_store_def one_room_store_def staffed_store_def empty_store_def)
  have b: "slot_of booking = (0, lit ''2024-01-10'', morning)"
    by (simp add: slot_of_def booking_def)
  show ?thesis
    using clear_slot [of one_room_map Delivered Delivered booked_store 0 morning booking]
      clear_slot [of slot_open_map Delivered Delivered one_room_store 0 morning booking]
      clear_slot [of slot_open_map Delivered Delivered booked_store 0 morning booking]
      s d b
    by (simp add: formatDateKey_example rows_of_slot_def unique_slots_def)
qed

subsection \<open>Assignment is an upsert on the slot\<close>

lemma conflicts_slot: "conflicts [col_room_id, col_date, col_shift] v a = (slot_of a = slot_of v)"
  by (auto simp: conflicts_def slot_of_def)

lemma stored_fields: "slot_of (stored v i) = slot_of v" "al_doctor_id (stored v i) = al_doctor_id v"
  by (simp_all add: stored_def slot_of_def)

lemma in_slots: "(k \<in> slot_of ` set rows) = (\<exists>a \<in> set rows. slot_of a = k)"
  by blast

lemma upsert_allocation_delivered:
  "db_room_allocations
     (snd (upsert_allocation Delivered v [col_room_id, col_date, col_shift] db))
     = upserted v (next_alloc_id db) (db_room_allocations db)"
  "fst (upsert_allocation Delivered v [col_room_id, col_date, col_shift] db) = None"
  by (simp_all add: upsert_allocation_def upserted_def conflicts_slot list_ex_iff issue_def
        in_slots)

lemma upsert_allocation_failed:
  "db_room_allocations (snd (upsert_allocation (Failed e) v cols db)) = db_room_allocations db"
  "fst (upsert_allocation (Failed e) v cols db) = Some e"
  by (simp_all add: upsert_allocation_def issue_def)

lemma slots_upserted:
  "map slot_of (upserted v n rows)
     = (if slot_of v \<in> slot_of ` set rows then map slot_of rows
        else map slot_of rows @ [slot_of v])"
  by (auto simp: upserted_def stored_fields)

lemma unique_slots_upserted: "unique_slots rows \<Longrightarrow> unique_slots (upserted v n rows)"
  by (simp add: unique_slots_def slots_upserted)

lemma find_absent: "k \<notin> slot_of ` set rows \<Longrightarrow> find (\<lambda>a. slot_of a = k) rows = None"
  by (induction rows) auto

lemma find_snoc:
  "find P (xs @ [x]) = (case find P xs of Some a \<Rightarrow> Some a | None \<Rightarrow> if P x then Some x else None)"
  by (induction xs) simp_all

lemma find_overwritten:
  assumes "\<And>i. slot_of (f i) = k'" and "\<And>i. al_doctor_id (f i) = d"
  shows "map_option al_doctor_id
          (find (\<lambda>a. slot_of a = k) (map (\<lambda>a. if slot_of a = k' then f (al_id a) else a) rows))
        = (if k = k' \<and> k' \<in> slot_of ` set rows then Some d
           else map_option al_doctor_id (find (\<lambda>a. slot_of a = k) rows))"
proof (induction rows)
  case Nil
  show ?case by simp
next
  case (Cons b rows)
  show ?case
  proof (cases "slot_of b = k'")
    case True
    then show ?thesis using assms Cons by (cases "k = k'") simp_all
  next
    case False
    then show ?thesis using assms Cons by (cases "slot_of b = k") simp_all
  qed
qed

lemma doctor_of_slot_upserted:
  "doctor_of_slot k (upserted v n rows)
     = (if k = slot_of v then Some (al_doctor_id v) else doctor_of_slot k rows)"
proof (cases "slot_of v \<in> slot_of ` set rows")
  case True
  then show ?thesis
    unfolding doctor_of_slot_def upserted_def
    by (simp add: find_overwritten [where f = "stored v" and k' = "slot_of v"
          and d = "al_doctor_id v"] stored_fields)
next
  case False
  then have "find (\<lambda>a. slot_of a = slot_of v) rows = None" by (rule find_absent)
  with False show ?thesis
    unfolding doctor_of_slot_def upserted_def
    by (cases "k = slot_of v") (simp_all add: find_snoc stored_fields split: option.splits)
qed

lemma rows_of_unique_slot:
  "unique_slots rows \<Longrightarrow>
   rows_of_slot k rows = (case find (\<lambda>a. slot_of a = k) rows of None \<Rightarrow> [] | Some a \<Rightarrow> [a])"
proof (induction rows)
  case Nil
  then show ?case by (simp add: rows_of_slot_def)
next
  case (Cons b rows)
  then have u: "unique_slots rows" and n: "slot_of b \<notin> slot_of ` set rows"
    by (simp_all add: unique_slots_def)
  show ?case
  proof (cases "slot_of b = k")
    case True
    with n have "\<forall>c \<in> set rows. slot_of c \<noteq> k" by (metis imageI)
    then have "filter (\<lambda>a. slot_of a = k) rows = []" by (simp add: filter_empty_conv)
    with True show ?thesis by (simp add: rows_of_slot_def)
  next
    case False
    with Cons.IH [OF u] show ?thesis by (simp add: rows_of_slot_def)
  qed
qed

lemma doctors_of_unique_slot:
  "unique_slots rows \<Longrightarrow>
   map al_doctor_id (rows_of_slot k rows)
     = (case doctor_of_slot k rows of None \<Rightarrow> [] | Some d \<Rightarrow> [d])"
  by (simp add: rows_of_unique_slot doctor_of_slot_def split: option.splits)

lemma assign_rows:
  "db_room_allocations (assign c db)
     = (case committed_slot c of
          None \<Rightarrow> db_room_allocations db
        | Some k \<Rightarrow>
            upserted \<lparr>al_room_id = fst k, al_doctor_id = ac_doctorId c, al_date = fst (snd k),
                      al_shift = snd (snd k),
                      al_created_by = map_option usr_id (user (ac_ctx c))\<rparr>
              (next_alloc_id db) (db_room_allocations db))"
proof (cases "selectedSlot (ac_ui c)")
  case None
  then show ?thesis by (simp add: assign_def handleAssignDoctor_def committed_slot_def)
next
  case (Some rs)
  obtain r s where rs: "rs = (r, s)" by (cases rs)
  show ?thesis
  proof (cases "ac_upsert c")
    case Delivered
    with Some rs show ?thesis
      by (simp add: assign_def handleAssignDoctor_def committed_slot_def Let_def split_beta
            upsert_allocation_delivered fetchAllocations_store)
  next
    case (Failed e)
    with Some rs show ?thesis
      by (simp add: assign_def handleAssignDoctor_def committed_slot_def Let_def split_beta
            upsert_allocation_failed)
  qed
qed

lemma assign_unique:
  "unique_slots (db_room_allocations db) \<Longrightarrow> unique_slots (db_room_allocations (assign c db))"
  by (simp add: assign_rows unique_slots_upserted split: option.splits)

lemma assign_doctor:
  "doctor_of_slot k (db_room_allocations (assign c db))
     = (if committed_slot c = Some k then Some (ac_doctorId c)
        else doctor_of_slot k (db_room_allocations db))"
  by (auto simp: assign_rows doctor_of_slot_upserted slot_of_def split: option.splits)

lemma assigns_unique:
  "unique_slots (db_room_allocations db) \<Longrightarrow> unique_slots (db_room_allocations (assigns cs db))"
  unfolding assigns_def by (induction cs arbitrary: db) (simp_all add: assign_unique)

lemma assigns_doctor:
  "doctor_of_slot k (db_room_allocations (assigns cs db))
     = (case last_assigned k cs of
          Some d \<Rightarrow> Some d
        | None \<Rightarrow> doctor_of_slot k (db_room_allocations db))"
  unfolding assigns_def
  by (induction cs arbitrary: db) (simp_all add: assign_doctor split: option.splits)

lemma handleAssignDoctor_no_error:
  "alerts (fst (handleAssignDoctor ctx doctorId Delivered t_fetch (ui, db))) = alerts ui"
  by (simp add: handleAssignDoctor_def Let_def split_beta upsert_allocation_delivered
        fetchAllocations_alerts split: option.splits)

text \<open>
  Claim C1.  Clients call \<open>handleAssignDoctor\<close> in any number and order against a table
  that satisfies its uniqueness constraint on (room\_id, date, shift).  Afterwards the
  table still has at most one row for every slot, and the row of a slot carries the
  doctor of the most recent call committed for it (slot selected, upsert delivered);
  a slot no call committed to keeps what it had.  A delivered assignment never raises an
  error, also on an occupied slot: the upsert overwrites.
\<close>

theorem assign_last_write_wins:
  "unique_slots (db_room_allocations db) \<longrightarrow>
     unique_slots (db_room_allocations (assigns calls db))
     \<and> length (rows_of_slot k (db_room_allocations (assigns calls db))) \<le> 1
     \<and> (\<forall>d. last_assigned k calls = Some d
            \<longrightarrow> map al_doctor_id (rows_of_slot k (db_room_allocations (assigns calls db))) = [d])
     \<and> (last_assigned k calls = None
            \<longrightarrow> map al_doctor_id (rows_of_slot k (db_room_allocations (assigns calls db)))
                = map al_doctor_id (rows_of_slot k (db_room_allocations db)))
     \<and> alerts (fst (handleAssignDoctor ctx doctorId Delivered t_fetch (ui, db))) = alerts ui"
proof
  assume u: "unique_slots (db_room_allocations db)"
  then have u': "unique_slots (db_room_allocations (assigns calls db))"
    by (rule assigns_unique)
  have l: "length (rows_of_slot k (db_room_allocations (assigns calls db))) \<le> 1"
    by (simp add: rows_of_unique_slot [OF u'] split: option.splits)
  have d: "map al_doctor_id (rows_of_slot k (db_room_allocations (assigns calls db))) = [d]"
    if "last_assigned k calls = Some d" for d
    using that by (simp add: doctors_of_unique_slot [OF u'] assigns_doctor)
  have n: "map al_doctor_id (rows_of_slot k (db_room_allocations (assigns calls db)))
                = map al_doctor_id (rows_of_slot k (db_room_allocations db))"
    if "last_assigned k calls = None"
    using that by (simp add: doctors_of_unique_slot [OF u'] doctors_of_unique_slot [OF u]
          assigns_doctor)
  from u' l d n handleAssignDoctor_no_error
  show "unique_slots (db_room_allocations (assigns calls db))
     \<and> length (rows_of_slot k (db_room_allocations (assigns calls db))) \<le> 1
     \<and> (\<forall>d. last_assigned k calls = Some d
            \<longrightarrow> map al_doctor_id (rows_of_slot k (db_room_allocations (assigns calls db))) = [d])
     \<and> (last_assigned k calls = None
            \<longrightarrow> map al_doctor_id (rows_of_slot k (db_room_allocations (assigns calls db)))
                = map al_doctor_id (rows_of_slot k (db_room_allocations db)))
     \<and> alerts (fst (handleAssignDoctor ctx doctorId Delivered t_fetch (ui, db))) = alerts ui"
    by blast
qed

theorem assign_last_write_wins_witness:
  "unique_slots (db_room_allocations one_room_store)
   \<and> last_assigned (0, lit ''2024-01-10'', morning) [first_call, second_call] = Some (lit ''d2'')
   \<and> map al_doctor_id
        (rows_of_slot (0, lit ''2024-01-10'', morning)
           (db_room_allocations (assigns [first_call, second_call] one_room_store)))
       = [lit ''d2'']
   \<and> last_assigned (0, lit ''2024-01-10'', afternoon) [first_call, second_call] = None
   \<and> rows_of_slot (0, lit ''2024-01-10'', afternoon)
        (db_room_allocations (assigns [first_call, second_call] one_room_store)) = []"
proof -
  have u: "unique_slots (db_room_allocations one_room_store)"
    "db_room_allocations one_room_store = []"
    by (simp_all add: unique_slots_def one_room_store_def staffed_store_def empty_store_def)
  have c: "committed_slot first_call = Some (0, lit ''2024-01-10'', morning)"
    "committed_slot second_call = Some (0, lit ''2024-01-10'', morning)"
    by (simp_all add: committed_slot_def first_call_def second_call_def slot_open_map_def
          one_room_map_def fresh_map_def formatDateKey_example)
  have d: "ac_doctorId second_call = lit ''d2''"
    by (simp add: second_call_def)
  have l: "last_assigned (0, lit ''2024-01-10'', morning) [first_call, second_call]
             = Some (lit ''d2'')"
    "last_assigned (0, lit ''2024-01-10'', afternoon) [first_call, second_call] = None"
    by (simp_all add: c d)
  show ?thesis
    using assign_last_write_wins [of one_room_store "[first_call, second_call]"
        "(0, lit ''2024-01-10'', morning)" at_CDU "lit ''d1''" Delivered slot_open_map]
      assign_last_write_wins [of one_room_store "[first_call, second_call]"
        "(0, lit ''2024-01-10'', afternoon)" at_CDU "lit ''d1''" Delivered slot_open_map]
      u l
    by (simp add: rows_of_slot_def)
qed

section \<open>Rooms are scoped by sector\<close>

lemma fetchRooms_store:
  "db_rooms (snd (fetchRooms ctx t (ui, db))) = db_rooms db"
  "next_room_id (snd (fetchRooms ctx t (ui, db))) = next_room_id db"
  by (simp_all add: fetchRooms_def Let_def select_rooms_def issue_def split_beta
        split: reply.splits option.splits)

lemma fetchRooms_delivered:
  "rooms (fst (fetchRooms ctx Delivered (ui, db)))
     = sort_key rm_order (filter (\<lambda>r. rm_sector r = selectedFloor ctx) (db_rooms db))"
  by (simp add: fetchRooms_def Let_def select_rooms_def answer_def)

lemma handleSaveRoom_created:
  assumes "editingRoomId ui = None" and "trim (rf_name (roomForm ui)) \<noteq> []"
  shows "db_rooms (snd (handleSaveRoom ctx Delivered t_fetch (ui, db)))
           = db_rooms db @
             [\<lparr>rm_id = next_room_id db, rm_name = rf_name (roomForm ui),
               rm_extension = Some (rf_extension (roomForm ui)),
               rm_sector = selectedFloor ctx, rm_order = int (length (rooms ui))\<rparr>]"
    and "next_room_id (snd (handleSaveRoom ctx Delivered t_fetch (ui, db))) = Suc (next_room_id db)"
  using assms
  by (simp_all add: handleSaveRoom_def insert_room_def issue_def split_beta fetchRooms_store)

lemma insert_room_created_in:
  "created_in i S db \<Longrightarrow> created_in i S (snd (insert_room t name ext sector ord db))"
  by (cases t) (auto simp: created_in_def insert_room_def issue_def)

lemma update_room_created_in:
  "created_in i S db \<Longrightarrow> created_in i S (snd (update_room t j name ext db))"
  by (cases t) (auto simp: created_in_def update_room_def issue_def list_all_iff)

lemma delete_room_created_in:
  "created_in i S db \<Longrightarrow> created_in i S (snd (delete_room t j db))"
  by (cases t) (auto simp: created_in_def delete_room_def issue_def list_all_iff)

lemma fetchRooms_created_in:
  "created_in i S db \<Longrightarrow> created_in i S (snd (fetchRooms ctx t (ui, db)))"
  by (simp add: created_in_def fetchRooms_store)

lemma handleSaveRoom_created_in:
  assumes "created_in i S db"
  shows "created_in i S (snd (handleSaveRoom ctx t_write t_fetch (ui, db)))"
proof (cases "trim (rf_name (roomForm ui)) = []")
  case True
  with assms show ?thesis by (simp add: handleSaveRoom_def)
next
  case False
  define w where "w = (case editingRoomId ui of
                Some j \<Rightarrow> update_room t_write j (rf_name (roomForm ui))
                            (rf_extension (roomForm ui)) db
              | None \<Rightarrow> insert_room t_write (rf_name (roomForm ui))
                          (rf_extension (roomForm ui)) (selectedFloor ctx)
                          (int (length (rooms ui))) db)"
  have c: "created_in i S (snd w)"
    unfolding w_def using assms
    by (simp add: insert_room_created_in update_room_created_in split: option.splits)
  have "snd (handleSaveRoom ctx t_write t_fetch (ui, db))
      = (case fst w of Some e \<Rightarrow> snd w | None \<Rightarrow> snd (fetchRooms ctx t_fetch (ui, snd w)))"
    using False unfolding w_def
    by (simp add: handleSaveRoom_def split_beta split: option.splits prod.splits)
  with c show ?thesis by (simp add: fetchRooms_created_in split: option.splits)
qed

lemma handleDeleteRoom_created_in:
  "created_in i S db
     \<Longrightarrow> created_in i S (snd (handleDeleteRoom ctx j confirmed t_delete t_fetch (ui, db)))"
  by (simp add: handleDeleteRoom_def split_beta fetchRooms_created_in delete_room_created_in)

lemma room_step_created_in: "created_in i S db \<Longrightarrow> created_in i S (room_step ev db)"
  by (cases ev) (simp_all add: handleSaveRoom_created_in handleDeleteRoom_created_in)

lemma room_steps_created_in: "created_in i S db \<Longrightarrow> created_in i S (room_steps evs db)"
  unfolding room_steps_def by (induction evs arbitrary: db) (simp_all add: room_step_created_in)

lemma handleDeleteRoom_rooms:
  "db_rooms (snd (handleDeleteRoom ctx j True Delivered t_fetch (ui, db)))
     = filter (\<lambda>r. rm_id r \<noteq> j) (db_rooms db)"
  "next_room_id (snd (handleDeleteRoom ctx j True Delivered t_fetch (ui, db))) = next_room_id db"
  by (simp_all add: handleDeleteRoom_def delete_room_def issue_def split_beta fetchRooms_store)

text \<open>
  Claim C6.  A client creates a room while sector \<open>S1\<close> is selected (the store reachable,
  every stored room with an identifier of the store's counter).  The new row carries
  \<open>S1\<close>, and the collection \<open>fetchRooms\<close> delivers under \<open>S1\<close> holds it.  What
  \<open>fetchRooms\<close> delivers is exactly the stored rooms whose sector equals the selected
  one, in the order of the column \<open>order\<close>.  Whatever the clients then do to the rooms
  table through \<open>handleSaveRoom\<close> and \<open>handleDeleteRoom\<close>, the collection delivered
  while a sector \<open>S2\<close> other than \<open>S1\<close> is selected holds the stored rooms of \<open>S2\<close> and
  never the room created.
\<close>

theorem room_scoping:
  "rooms_ok db \<and> editingRoomId ui = None \<and> trim (rf_name (roomForm ui)) \<noteq> []
     \<and> selectedFloor ctx = S1 \<and> selectedFloor ctx2 = S2 \<and> S1 \<noteq> S2
   \<longrightarrow> (\<exists>r. db_rooms (snd (handleSaveRoom ctx Delivered t_fetch (ui, db))) = db_rooms db @ [r]
            \<and> rm_id r = next_room_id db \<and> rm_sector r = S1
            \<and> rm_name r = rf_name (roomForm ui)
            \<and> r \<in> set (rooms (fst (fetchRooms ctx Delivered
                   (ui, snd (handleSaveRoom ctx Delivered t_fetch (ui, db)))))))
       \<and> next_room_id db \<notin> rm_id ` set (db_rooms db)
       \<and> rooms (fst (fetchRooms ctx Delivered
                 (ui, snd (handleSaveRoom ctx Delivered t_fetch (ui, db)))))
           = sort_key rm_order (filter (\<lambda>r. rm_sector r = S1)
               (db_rooms (snd (handleSaveRoom ctx Delivered t_fetch (ui, db)))))
       \<and> rooms (fst (fetchRooms ctx2 Delivered
                 (ui2, room_steps evs (snd (handleSaveRoom ctx Delivered t_fetch (ui, db))))))
           = sort_key rm_order (filter (\<lambda>r. rm_sector r = S2)
               (db_rooms (room_steps evs (snd (handleSaveRoom ctx Delivered t_fetch (ui, db))))))
       \<and> next_room_id db
           \<notin> rm_id ` set (rooms (fst (fetchRooms ctx2 Delivered
                 (ui2, room_steps evs (snd (handleSaveRoom ctx Delivered t_fetch (ui, db)))))))
       \<and> list_all (\<lambda>r. rm_sector r = S2)
           (rooms (fst (fetchRooms ctx2 Delivered
                 (ui2, room_steps evs (snd (handleSaveRoom ctx Delivered t_fetch (ui, db)))))))"
proof
  assume h: "rooms_ok db \<and> editingRoomId ui = None \<and> trim (rf_name (roomForm ui)) \<noteq> []
     \<and> selectedFloor ctx = S1 \<and> selectedFloor ctx2 = S2 \<and> S1 \<noteq> S2"
  let ?i = "next_room_id db"
  let ?db1 = "snd (handleSaveRoom ctx Delivered t_fetch (ui, db))"
  let ?db2 = "room_steps evs ?db1"
  let ?own = "rooms (fst (fetchRooms ctx Delivered (ui, ?db1)))"
  let ?fetched = "rooms (fst (fetchRooms ctx2 Delivered (ui2, ?db2)))"
  from h have e: "editingRoomId ui = None" and n: "trim (rf_name (roomForm ui)) \<noteq> []" by simp_all
  note created = handleSaveRoom_created [OF e n, of ctx t_fetch db]
  from h have old: "\<forall>r \<in> set (db_rooms db). rm_id r < ?i"
    by (simp add: rooms_ok_def list_all_iff)
  then have fresh: "?i \<notin> rm_id ` set (db_rooms db)" by auto
  have "created_in ?i S1 ?db1"
    using h old by (auto simp: created_in_def created list_all_iff)
  then have "created_in ?i S1 ?db2" by (rule room_steps_created_in)
  then have inv: "\<forall>r \<in> set (db_rooms ?db2). rm_id r = ?i \<longrightarrow> rm_sector r = S1"
    by (simp add: created_in_def list_all_iff)
  have own: "?own = sort_key rm_order (filter (\<lambda>r. rm_sector r = S1) (db_rooms ?db1))"
    using h by (simp add: fetchRooms_delivered)
  have exact: "?fetched = sort_key rm_order (filter (\<lambda>r. rm_sector r = S2) (db_rooms ?db2))"
    using h by (simp add: fetchRooms_delivered)
  have f: "set ?fetched = {r \<in> set (db_rooms ?db2). rm_sector r = S2}"
    unfolding exact by simp
  have a: "\<exists>r. db_rooms ?db1 = db_rooms db @ [r] \<and> rm_id r = ?i \<and> rm_sector r = S1
            \<and> rm_name r = rf_name (roomForm ui) \<and> r \<in> set ?own"
    unfolding own using h by (simp add: created)
  have b: "?i \<notin> rm_id ` set ?fetched"
    using inv h unfolding f by auto
  have c: "list_all (\<lambda>r. rm_sector r = S2) ?fetched"
    unfolding list_all_iff f by simp
  from a fresh own exact b c
  show "(\<exists>r. db_rooms ?db1 = db_rooms db @ [r] \<and> rm_id r = ?i \<and> rm_sector r = S1
            \<and> rm_name r = rf_name (roomForm ui) \<and> r \<in> set ?own)
       \<and> ?i \<notin> rm_id ` set (db_rooms db)
       \<and> ?own = sort_key rm_order (filter (\<lambda>r. rm_sector r = S1) (db_rooms ?db1))
       \<and> ?fetched = sort_key rm_order (filter (\<lambda>r. rm_sector r = S2) (db_rooms ?db2))
       \<and> ?i \<notin> rm_id ` set ?fetched
       \<and> list_all (\<lambda>r. rm_sector r = S2) ?fetched"
    by blast
qed

theorem room_scoping_witness:
  "rooms_ok staffed_store \<and> editingRoomId typed_room = None
   \<and> trim (rf_name (roomForm typed_room)) \<noteq> [] \<and> CDU \<noteq> floor_8
   \<and> next_room_id staffed_store = 0
   \<and> db_rooms (snd (handleSaveRoom at_CDU Delivered Delivered (typed_room, staffed_store)))
       = [sala_1]
   \<and> rooms (fst (fetchRooms at_CDU Delivered
        (typed_room, snd (handleSaveRoom at_CDU Delivered Delivered (typed_room, staffed_store)))))
       = [sala_1]
   \<and> db_rooms (room_steps later_room_events
                (snd (handleSaveRoom at_CDU Delivered Delivered (typed_room, staffed_store))))
       = [sala_1, sala_1_on_8]
   \<and> rooms (fst (fetchRooms at_floor_8 Delivered
             (fresh_map, room_steps later_room_events
                (snd (handleSaveRoom at_CDU Delivered Delivered (typed_room, staffed_store))))))
       = [sala_1_on_8]
   \<and> rm_id sala_1 = 0 \<and> rm_id sala_1_on_8 = 1"
proof -
  define db1 where
    "db1 = snd (handleSaveRoom at_CDU Delivered Delivered (typed_room, staffed_store))"
  have a: "rooms_ok staffed_store" "next_room_id staffed_store = 0" "db_rooms staffed_store = []"
    by (simp_all add: rooms_ok_def staffed_store_def empty_store_def)
  have b: "editingRoomId typed_room = None" "trim (rf_name (roomForm typed_room)) \<noteq> []"
    by (simp_all add: typed_room_def fresh_map_def trim_def lit_def is_white_space_def)
  have c: "CDU \<noteq> floor_8" "selectedFloor at_CDU = CDU" "selectedFloor at_floor_8 = floor_8"
    by (simp_all add: CDU_def floor_8_def lit_def at_CDU_def at_floor_8_def)
  have t: "rf_name (roomForm typed_room) = lit ''Sala 1''"
    "rf_extension (roomForm typed_room) = lit ''201''" "rooms typed_room = []"
    by (simp_all add: typed_room_def fresh_map_def)
  have s: "rm_sector sala_1 = CDU" "rm_sector sala_1_on_8 = floor_8"
    "rm_id sala_1 = 0" "rm_id sala_1_on_8 = 1"
    by (simp_all add: sala_1_def sala_1_on_8_def)
  have db1: "db_rooms db1 = [sala_1]" "next_room_id db1 = 1"
    unfolding db1_def by (simp_all add: handleSaveRoom_created [OF b] a c t sala_1_def)
  have step: "db_rooms (snd (handleSaveRoom at_floor_8 Delivered Delivered (typed_room, db1)))
                = [sala_1, sala_1_on_8]"
    by (simp add: handleSaveRoom_created(1) [OF b] db1 c t sala_1_on_8_def)
  have db2: "db_rooms (room_steps later_room_events db1) = [sala_1, sala_1_on_8]"
    by (simp add: room_steps_def later_room_events_def handleDeleteRoom_rooms step s)
  note stored = db1 [unfolded db1_def] db2 [unfolded db1_def]
  show ?thesis
    using room_scoping [of staffed_store typed_room at_CDU CDU at_floor_8 floor_8 Delivered
        fresh_map later_room_events] a b c stored s
    by simp
qed

section \<open>The doctors offered by the allocation modal\<close>

lemma offeredDoctors_sector:
  "d \<in> set (offeredDoctors toLowerCase localeCompare ctx ui)
     \<Longrightarrow> d \<in> set (doctors ui) \<and> d_sector d = selectedFloor ctx"
  by (simp add: offeredDoctors_def set_sort_by)

lemma set_upserted: "a \<in> set (upserted v n rows) \<Longrightarrow> a \<notin> set rows \<Longrightarrow> al_doctor_id a = al_doctor_id v"
  by (auto simp: upserted_def stored_fields split: if_splits)

lemma handleAssignDoctor_new_row:
  assumes "a \<in> set (db_room_allocations (snd (handleAssignDoctor ctx doctorId t_upsert t_fetch (ui, db))))"
    and "a \<notin> set (db_room_allocations db)"
  shows "al_doctor_id a = doctorId"
proof -
  let ?c = "\<lparr>ac_ctx = ctx, ac_ui = ui, ac_doctorId = doctorId, ac_upsert = t_upsert,
             ac_fetch = t_fetch\<rparr>"
  have "snd (handleAssignDoctor ctx doctorId t_upsert t_fetch (ui, db)) = assign ?c db"
    by (simp add: assign_def)
  with assms have "a \<in> set (db_room_allocations (assign ?c db))" by simp
  with assms(2) show ?thesis
    by (auto simp: assign_rows dest: set_upserted split: option.splits)
qed

text \<open>
  Claim C8.  The doctors of the map are the mapped rows of the profiles.  A row of the
  allocation table that a click on a button of the modal creates or overwrites carries
  the identifier of a doctor of the offered list, and every doctor of that list has the
  parsed sector (the trimmed second segment of the stored specialty) equal to the
  selected sector: no doctor of another sector is assigned on this path.
\<close>

theorem offered_doctor_sector:
  "doctors ui = map mapDoctor profs
     \<and> a \<in> set (db_room_allocations
                 (snd (clickDoctor toLowerCase localeCompare ctx n t_upsert t_fetch (ui, db))))
     \<and> a \<notin> set (db_room_allocations db)
   \<longrightarrow> (\<exists>p \<in> set profs. al_doctor_id a = pr_id p
            \<and> mapDoctor p \<in> set (offeredDoctors toLowerCase localeCompare ctx ui)
            \<and> d_sector (mapDoctor p) = selectedFloor ctx)
       \<and> list_all (\<lambda>d. d_sector d = selectedFloor ctx)
           (offeredDoctors toLowerCase localeCompare ctx ui)"
proof
  assume h: "doctors ui = map mapDoctor profs
     \<and> a \<in> set (db_room_allocations
                 (snd (clickDoctor toLowerCase localeCompare ctx n t_upsert t_fetch (ui, db))))
     \<and> a \<notin> set (db_room_allocations db)"
  let ?offered = "offeredDoctors toLowerCase localeCompare ctx ui"
  have all: "list_all (\<lambda>d. d_sector d = selectedFloor ctx) ?offered"
    by (simp add: list_all_iff offeredDoctors_sector)
  from h have changed:
    "db_room_allocations (snd (clickDoctor toLowerCase localeCompare ctx n t_upsert t_fetch (ui, db)))
       \<noteq> db_room_allocations db"
    by auto
  then have "showAllocationModal ui" and "at_index ?offered n \<noteq> None"
    by (auto simp: clickDoctor_def split: if_splits option.splits)
  then obtain doctor where d: "at_index ?offered n = Some doctor" by auto
  then have mem: "doctor \<in> set ?offered"
    by (auto simp: at_index_def split: if_splits)
  from d \<open>showAllocationModal ui\<close>
  have "clickDoctor toLowerCase localeCompare ctx n t_upsert t_fetch (ui, db)
          = handleAssignDoctor ctx (d_id doctor) t_upsert t_fetch (ui, db)"
    by (simp add: clickDoctor_def)
  with h have id: "al_doctor_id a = d_id doctor"
    by (auto dest: handleAssignDoctor_new_row)
  from offeredDoctors_sector [OF mem] h
  obtain p where p: "p \<in> set profs" "doctor = mapDoctor p" "d_sector doctor = selectedFloor ctx"
    by auto
  then have "d_id doctor = pr_id p" by (simp add: mapDoctor_def Let_def)
  with id p mem have "\<exists>p \<in> set profs. al_doctor_id a = pr_id p
            \<and> mapDoctor p \<in> set ?offered \<and> d_sector (mapDoctor p) = selectedFloor ctx"
    by auto
  with all show "(\<exists>p \<in> set profs. al_doctor_id a = pr_id p
            \<and> mapDoctor p \<in> set ?offered
            \<and> d_sector (mapDoctor p) = selectedFloor ctx)
       \<and> list_all (\<lambda>d. d_sector d = selectedFloor ctx) ?offered"
    by simp
qed

theorem offered_doctor_sector_witness:
  "offeredDoctors (\<lambda>s. s) (\<lambda>a b. 0) at_CDU slot_open_map = [mapDoctor radiologist]
   \<and> db_room_allocations
        (snd (clickDoctor (\<lambda>s. s) (\<lambda>a b. 0) at_CDU 0 Delivered Delivered
                (slot_open_map, one_room_store))) = [booking]
   \<and> db_room_allocations one_room_store = []
   \<and> al_doctor_id booking = pr_id radiologist
   \<and> d_sector (mapDoctor radiologist) = CDU
   \<and> d_sector (mapDoctor cardiologist) = floor_8"
proof -
  have s: "d_sector (mapDoctor radiologist) = CDU" "d_sector (mapDoctor cardiologist) = floor_8"
    by (simp_all add: mapDoctor_def Let_def radiologist_def cardiologist_def blank_profile_def
          CDU_def floor_8_def lit_def split_str_def starts_with_def js_or_def at_index_def
          trim_def is_white_space_def)
  have ne: "CDU \<noteq> floor_8"
    by (simp add: CDU_def floor_8_def lit_def)
  have ui: "doctors slot_open_map = map mapDoctor [cardiologist, radiologist]"
    "doctorSearch slot_open_map = []" "showAllocationModal slot_open_map"
    "selectedSlot slot_open_map = Some (0, morning)"
    "currentDate slot_open_map = Local_Date 2024 0 10"
    by (simp_all add: slot_open_map_def one_room_map_def fresh_map_def)
  have inc: "includes_str x []" for x
    by (cases x) (simp_all add: starts_with_def)
  have off: "offeredDoctors (\<lambda>s. s) (\<lambda>a b. 0) at_CDU slot_open_map = [mapDoctor radiologist]"
    using s ne by (simp add: offeredDoctors_def ui inc at_CDU_def sort_by_def)
  have ids: "d_id (mapDoctor radiologist) = lit ''d2''" "pr_id radiologist = lit ''d2''"
    by (simp_all add: mapDoctor_def Let_def radiologist_def blank_profile_def)
  have db: "db_room_allocations one_room_store = []" "next_alloc_id one_room_store = 0"
    by (simp_all add: one_room_store_def staffed_store_def empty_store_def)
  have usr: "map_option usr_id (user at_CDU) = Some (lit ''u1'')"
    by (simp add: at_CDU_def me_def)
  have click: "db_room_allocations
        (snd (clickDoctor (\<lambda>s. s) (\<lambda>a b. 0) at_CDU 0 Delivered Delivered
                (slot_open_map, one_room_store))) = [booking]"
    by (simp add: clickDoctor_def off at_index_def handleAssignDoctor_def ui Let_def split_beta
          upsert_allocation_delivered fetchAllocations_store upserted_def db stored_def
          booking_def ids formatDateKey_example usr)
  have b: "al_doctor_id booking = pr_id radiologist"
    by (simp add: booking_def ids)
  show ?thesis
    using offered_doctor_sector [of slot_open_map "[cardiologist, radiologist]" booking
        "\<lambda>s. s" "\<lambda>a b. 0" at_CDU 0 Delivered Delivered one_room_store]
      ui off click db b s
    by simp
qed

end
